theory Spec2Isabelle
  imports Complex_Main
begin

section \<open>Conventions of the embedding\<close>

text \<open>
  The repository is a Langevin-dynamics simulator written with numpy. The embedding
  follows its modules: \<^verbatim>\<open>constants.py\<close>, \<^verbatim>\<open>boundary.py\<close>, \<^verbatim>\<open>forces.py\<close>,
  \<^verbatim>\<open>integrators.py\<close>, \<^verbatim>\<open>utils/analysis.py\<close>, \<^verbatim>\<open>io/config_loader.py\<close>,
  \<^verbatim>\<open>io/lammps_writer.py\<close> and \<^verbatim>\<open>simulation.py\<close>.

  \<^item> A float is a \<open>real\<close>: arithmetic is exact, there is no rounding and no overflow.
    Where numpy would leave the reals (a division by zero, the remainder by zero, the
    square root of a negative number) it stores \<open>inf\<close> or \<open>nan\<close>, warns and goes on.
    The reals have no such values: a function on arrays returns \<open>NonFinite\<close> there instead
    of an array, and the simulation, which like numpy goes on, marks its arrays as no
    longer tracked (\<open>tracked\<close>). \<open>NonFinite\<close> is never an exception of the program.
  \<^item> An array of shape \<open>(natoms,)\<close> is a list; an array of shape \<open>(natoms, ndims)\<close> is a
    list of \<open>natoms\<close> rows, each a list of \<open>ndims\<close> numbers (\<open>has_shape\<close>). The functions
    are modelled on arrays of the shapes their docstrings give; what numpy does on
    other shapes (broadcasting, or an exception) is outside the model, and the theorems
    state the shapes they need.
  \<^item> In-place mutation is explicit state passing: a function that updates \<open>pos\<close> and
    \<open>vels\<close> returns the new pair.
  \<^item> An exception is a value: a function that can raise returns \<open>py_error + 'a\<close>, with
    \<open>Inl\<close> for the exception.
  \<^item> The random draws of \<^verbatim>\<open>np.random.rand\<close> and \<^verbatim>\<open>np.random.randn\<close> are parameters:
    a function from the particle and the axis to the number drawn.
\<close>

datatype py_error =
    ValueError string
  | TypeError
  | IndexError
  | AttributeError
  | ZeroDivisionError
  | NonFinite

type_synonym ndarray1 = "real list"
type_synonym ndarray2 = "real list list"
type_synonym box = "(real \<times> real) list"

definition has_shape :: "nat \<Rightarrow> nat \<Rightarrow> ndarray2 \<Rightarrow> bool" where
  "has_shape n d a \<longleftrightarrow> length a = n \<and> (\<forall>r \<in> set a. length r = d)"

text \<open>\<^verbatim>\<open>natoms, ndims = vels.shape\<close>: with no row the list has lost \<open>ndims\<close>; every use
  below then works on an empty array, where the number of columns does not matter.\<close>

definition ncols :: "ndarray2 \<Rightarrow> nat" where
  "ncols a = (case a of [] \<Rightarrow> 0 | r # _ \<Rightarrow> length r)"

text \<open>The arrays \<^verbatim>\<open>np.random.rand(natoms, ndims)\<close> and \<^verbatim>\<open>np.random.randn(natoms, ndims)\<close>,
  from their draws \<open>z\<close>.\<close>

definition random_array :: "(nat \<Rightarrow> nat \<Rightarrow> real) \<Rightarrow> nat \<Rightarrow> nat \<Rightarrow> ndarray2" where
  "random_array z natoms ndims = map (\<lambda>p. map (\<lambda>j. z p j) [0..<ndims]) [0..<natoms]"

section \<open>constants.py\<close>

definition AVOGADRO :: real where
  "AVOGADRO = 602214086 * 10 ^ 15"

definition BOLTZMANN :: real where
  "BOLTZMANN = 138064852 / 10 ^ 31"

section \<open>boundary.py\<close>

text \<open>\<^verbatim>\<open>a[:, i]\<close>, and the masked update \<^verbatim>\<open>a[mask, i] = f(a[mask, i])\<close>.\<close>

definition column :: "nat \<Rightarrow> ndarray2 \<Rightarrow> ndarray1" where
  "column i a = map (\<lambda>r. r ! i) a"

definition assign_where :: "nat \<Rightarrow> bool list \<Rightarrow> (real \<Rightarrow> real) \<Rightarrow> ndarray2 \<Rightarrow> ndarray2" where
  "assign_where i msk f a = map2 (\<lambda>m r. if m then r[i := f (r ! i)] else r) msk a"

text \<open>The body of the loop of \<^verbatim>\<open>ReflectiveBoundary.apply\<close> for axis \<open>i\<close> with bounds
  \<open>(lo, hi) = self.box[i]\<close>. The upper mask is computed from the positions the lower
  branch has already written.\<close>

definition reflect_axis :: "nat \<Rightarrow> real \<times> real \<Rightarrow> ndarray2 \<times> ndarray2 \<Rightarrow> ndarray2 \<times> ndarray2" where
  "reflect_axis i b pv =
     (let pos = fst pv; vels = snd pv;
          mask_lower = map (\<lambda>x. x \<le> fst b) (column i pos);
          vels1 = assign_where i mask_lower abs vels;
          pos1 = assign_where i mask_lower (\<lambda>_. fst b) pos;
          mask_upper = map (\<lambda>x. x \<ge> snd b) (column i pos1);
          vels2 = assign_where i mask_upper (\<lambda>v. - abs v) vels1;
          pos2 = assign_where i mask_upper (\<lambda>_. snd b) pos1
      in (pos2, vels2))"

definition reflective_apply :: "box \<Rightarrow> ndarray2 \<Rightarrow> ndarray2 \<Rightarrow> ndarray2 \<times> ndarray2" where
  "reflective_apply bx pos vels =
     fold (\<lambda>i pv. reflect_axis i (bx ! i) pv) [0..<length bx] (pos, vels)"

text \<open>The remainder of numpy and Python on floats: the result has the sign of the
  divisor. The divisor is not zero where this is used.\<close>

definition np_mod :: "real \<Rightarrow> real \<Rightarrow> real" where
  "np_mod x y = x - y * of_int \<lfloor>x / y\<rfloor>"

text \<open>The body of the loop of \<^verbatim>\<open>PeriodicBoundary.apply\<close>: with a box of length zero
  every element of the column becomes \<open>nan\<close>.\<close>

definition wrap_axis :: "nat \<Rightarrow> real \<times> real \<Rightarrow> ndarray2 \<Rightarrow> py_error + ndarray2" where
  "wrap_axis i b pos =
     (let box_length = snd b - fst b in
      if box_length = 0 \<and> pos \<noteq> [] then Inl NonFinite
      else Inr (map (\<lambda>r. r[i := fst b + np_mod (r ! i - fst b) box_length]) pos))"

fun periodic_loop :: "nat list \<Rightarrow> box \<Rightarrow> ndarray2 \<Rightarrow> py_error + ndarray2" where
  "periodic_loop [] bx pos = Inr pos"
| "periodic_loop (i # axes) bx pos =
     (case wrap_axis i (bx ! i) pos of
        Inl e \<Rightarrow> Inl e
      | Inr pos' \<Rightarrow> periodic_loop axes bx pos')"

definition periodic_apply :: "box \<Rightarrow> ndarray2 \<Rightarrow> ndarray2 \<Rightarrow> py_error + ndarray2 \<times> ndarray2" where
  "periodic_apply bx pos vels =
     (case periodic_loop [0..<length bx] bx pos of
        Inl e \<Rightarrow> Inl e
      | Inr pos' \<Rightarrow> Inr (pos', vels))"

text \<open>The two subclasses of \<^verbatim>\<open>BoundaryCondition\<close>, each holding \<^verbatim>\<open>self.box\<close>, and the
  dispatch of \<^verbatim>\<open>boundary.apply(pos, vels)\<close>.\<close>

datatype BoundaryCondition = ReflectiveBoundary box | PeriodicBoundary box

fun boundary_apply :: "BoundaryCondition \<Rightarrow> ndarray2 \<Rightarrow> ndarray2 \<Rightarrow> py_error + ndarray2 \<times> ndarray2" where
  "boundary_apply (ReflectiveBoundary bx) pos vels = Inr (reflective_apply bx pos vels)"
| "boundary_apply (PeriodicBoundary bx) pos vels = periodic_apply bx pos vels"

text \<open>\<^verbatim>\<open>str.lower\<close>. Only the letters A to Z are mapped; a character outside ASCII never
  lowers to a letter of the two names below, so the test of \<^verbatim>\<open>create_boundary\<close> is the
  same.\<close>

definition lower_char :: "char \<Rightarrow> char" where
  "lower_char c =
     (case map_of (zip ''ABCDEFGHIJKLMNOPQRSTUVWXYZ'' ''abcdefghijklmnopqrstuvwxyz'') c of
        None \<Rightarrow> c
      | Some l \<Rightarrow> l)"

definition lower :: "string \<Rightarrow> string" where
  "lower s = map lower_char s"

text \<open>\<^verbatim>\<open>repr\<close> of a list of strings that hold no quote: \<^verbatim>\<open>['a', 'b']\<close>.\<close>

fun join :: "string \<Rightarrow> string list \<Rightarrow> string" where
  "join sep [] = []"
| "join sep [x] = x"
| "join sep (x # y # xs) = x @ sep @ join sep (y # xs)"

definition repr_str :: "string \<Rightarrow> string" where
  "repr_str s = [CHR 0x27] @ s @ [CHR 0x27]"

definition repr_list :: "string list \<Rightarrow> string" where
  "repr_list xs = ''['' @ join '', '' (map repr_str xs) @ '']''"

definition boundary_types :: "(string \<times> (box \<Rightarrow> BoundaryCondition)) list" where
  "boundary_types = [(''reflective'', ReflectiveBoundary), (''periodic'', PeriodicBoundary)]"

definition create_boundary :: "string \<Rightarrow> box \<Rightarrow> py_error + BoundaryCondition" where
  "create_boundary boundary_type bx =
     (case map_of boundary_types (lower boundary_type) of
        None \<Rightarrow>
          Inl (ValueError (''Unknown boundary type: '' @ boundary_type @ ''. ''
                 @ ''Available types: '' @ repr_list (map fst boundary_types)))
      | Some cls \<Rightarrow> Inr (cls bx))"

section \<open>forces.py\<close>

text \<open>\<^verbatim>\<open>compute_langevin_force\<close>; \<open>z\<close> are the draws of \<^verbatim>\<open>np.random.randn\<close>. The friction
  divides every element by \<open>relaxation_time\<close>; \<open>sigma\<close> divides by
  \<open>relaxation_time * dt\<close> and takes a square root, once per particle.\<close>

definition compute_langevin_force ::
  "ndarray1 \<Rightarrow> ndarray2 \<Rightarrow> real \<Rightarrow> real \<Rightarrow> real \<Rightarrow> (nat \<Rightarrow> nat \<Rightarrow> real) \<Rightarrow> py_error + ndarray2" where
  "compute_langevin_force mass vels temperature relaxation_time dt z =
     (let natoms = length vels; ndims = ncols vels in
      if relaxation_time = 0 \<and> 0 < natoms \<and> 0 < ndims then Inl NonFinite
      else if mass \<noteq> [] \<and> (relaxation_time * dt = 0 \<or>
                (\<exists>m \<in> set mass. 2 * m * temperature * BOLTZMANN / (relaxation_time * dt) < 0))
      then Inl NonFinite
      else
        let friction_force = map2 (\<lambda>m v. map (\<lambda>x. - (m * x) / relaxation_time) v) mass vels;
            sigma = map (\<lambda>m. sqrt (2 * m * temperature * BOLTZMANN / (relaxation_time * dt))) mass;
            random_force = map2 (\<lambda>r s. map (\<lambda>x. x * s) r) (random_array z natoms ndims) sigma;
            total_force = map2 (map2 (+)) friction_force random_force
        in Inr total_force)"

section \<open>integrators.py\<close>

text \<open>\<^verbatim>\<open>euler_integrate\<close>: the positions are advanced with the velocities as they were
  passed in, then the velocities are advanced; an element of row \<open>p\<close> is divided by
  \<open>mass[p]\<close>.\<close>

definition euler_integrate ::
  "ndarray2 \<Rightarrow> ndarray2 \<Rightarrow> ndarray2 \<Rightarrow> ndarray1 \<Rightarrow> real \<Rightarrow> py_error + ndarray2 \<times> ndarray2" where
  "euler_integrate pos vels force mass dt =
     (if \<exists>(f, m) \<in> set (zip force mass). f \<noteq> [] \<and> m = 0 then Inl NonFinite
      else
        let pos' = map2 (map2 (\<lambda>x v. x + v * dt)) pos vels;
            vels' = map2 (\<lambda>v (f, m). map2 (\<lambda>vx fx. vx + fx * dt / m) v f) vels (zip force mass)
        in Inr (pos', vels'))"

section \<open>utils/analysis.py\<close>

text \<open>\<^verbatim>\<open>np.mean(vels, axis=0)\<close> on an array with at least one row.\<close>

definition mean_axis0 :: "ndarray2 \<Rightarrow> ndarray1" where
  "mean_axis0 a = map (\<lambda>j. sum_list (column j a) / real (length a)) [0..<ncols a]"

text \<open>\<^verbatim>\<open>np.sum(mass[:, np.newaxis] * a**2)\<close>.\<close>

definition sum_mass_sq :: "ndarray1 \<Rightarrow> ndarray2 \<Rightarrow> real" where
  "sum_mass_sq mass a = sum_list (map2 (\<lambda>m r. sum_list (map (\<lambda>x. m * x\<^sup>2) r)) mass a)"

text \<open>\<^verbatim>\<open>compute_temperature\<close>. With no particle or no axis the mean or the last division
  is \<open>0/0\<close>.\<close>

definition compute_temperature :: "ndarray1 \<Rightarrow> ndarray2 \<Rightarrow> py_error + real" where
  "compute_temperature mass vels =
     (let natoms = length vels; ndims = ncols vels in
      if natoms = 0 \<or> ndims = 0 then Inl NonFinite
      else
        let v_cm = mean_axis0 vels;
            v_rel = map (\<lambda>v. map2 (-) v v_cm) vels;
            ke = 0.5 * sum_mass_sq mass v_rel;
            temperature = 2.0 * ke / (real ndims * real natoms * BOLTZMANN)
        in Inr temperature)"

definition compute_kinetic_energy :: "ndarray1 \<Rightarrow> ndarray2 \<Rightarrow> real" where
  "compute_kinetic_energy mass vels = 0.5 * sum_mass_sq mass vels"

section \<open>io/config_loader.py\<close>

text \<open>A value of the configuration as \<^verbatim>\<open>yaml.safe_load\<close> returns it: a number, a
  string, a sequence or \<^verbatim>\<open>None\<close>. The configuration is a dict from keys to values.\<close>

datatype yaml = YNum real | YStr string | YSeq "yaml list" | YNull

type_synonym config = "string \<Rightarrow> yaml option"

definition required_keys :: "string list" where
  "required_keys = [''natoms'', ''mass'', ''temperature'', ''dt'', ''relaxation_time'',
                    ''nsteps'', ''box'']"

text \<open>The loop \<^verbatim>\<open>for key in required_keys: if key not in config: raise\<close>.\<close>

fun check_required :: "string list \<Rightarrow> config \<Rightarrow> py_error + unit" where
  "check_required [] cfg = Inr ()"
| "check_required (key # keys) cfg =
     (if cfg key = None
      then Inl (ValueError (''Required parameter '' @ repr_str key @ '' missing from config''))
      else check_required keys cfg)"

text \<open>\<^verbatim>\<open>config[key] <= 0\<close> and \<^verbatim>\<open>config[key] < 0\<close>: Python compares a number with \<open>0\<close> and
  raises \<^verbatim>\<open>TypeError\<close> for a string, a list or \<^verbatim>\<open>None\<close>; a missing key cannot occur after
  \<open>check_required\<close>.\<close>

definition le_zero :: "yaml option \<Rightarrow> py_error + bool" where
  "le_zero v = (case v of Some (YNum x) \<Rightarrow> Inr (x \<le> 0) | _ \<Rightarrow> Inl TypeError)"

definition lt_zero :: "yaml option \<Rightarrow> py_error + bool" where
  "lt_zero v = (case v of Some (YNum x) \<Rightarrow> Inr (x < 0) | _ \<Rightarrow> Inl TypeError)"

definition validate_config :: "config \<Rightarrow> py_error + unit" where
  "validate_config cfg =
     (case check_required required_keys cfg of
        Inl e \<Rightarrow> Inl e
      | Inr _ \<Rightarrow>
         (case le_zero (cfg ''natoms'') of
            Inl e \<Rightarrow> Inl e
          | Inr True \<Rightarrow> Inl (ValueError ''natoms must be positive'')
          | Inr False \<Rightarrow>
             (case lt_zero (cfg ''temperature'') of
                Inl e \<Rightarrow> Inl e
              | Inr True \<Rightarrow> Inl (ValueError ''temperature cannot be negative'')
              | Inr False \<Rightarrow>
                 (case le_zero (cfg ''dt'') of
                    Inl e \<Rightarrow> Inl e
                  | Inr True \<Rightarrow> Inl (ValueError ''dt must be positive'')
                  | Inr False \<Rightarrow> Inr ()))))"

section \<open>io/lammps_writer.py\<close>

text \<open>A file of the dump format is the list of the frames appended to it; a frame is
  what \<^verbatim>\<open>write_frame\<close> writes in one block: the timestep, the atom count, the box
  bounds and the named columns. The rendering of the numbers as text is not modelled;
  \<open>frame_tracked\<close> tells whether the columns are tracked (see \<open>tracked\<close> below), and the
  numbers of the columns mean nothing when it is false.
  The file system maps a path to the file there; failures of the operating system
  (a missing directory, a path that is a directory) are not modelled.\<close>

record frame =
  frame_timestep :: int
  frame_natoms :: int
  frame_box :: box
  frame_columns :: "(string \<times> ndarray1) list"
  frame_tracked :: bool

type_synonym files = "string \<Rightarrow> frame list option"

text \<open>An array passed as a keyword argument: one-dimensional, or two-dimensional with its
  number of columns \<^verbatim>\<open>array.shape[1]\<close>.\<close>

datatype field = Arr1 ndarray1 | Arr2 nat ndarray2

definition axis :: "string list" where
  "axis = [''x'', ''y'', ''z'']"

text \<open>\<^verbatim>\<open>processed[key] = value\<close> on a dict that keeps insertion order.\<close>

fun dict_set :: "string \<Rightarrow> 'v \<Rightarrow> (string \<times> 'v) list \<Rightarrow> (string \<times> 'v) list" where
  "dict_set k v [] = [(k, v)]"
| "dict_set k v ((k', v') # kvs) =
     (if k = k' then (k, v) # kvs else (k', v') # dict_set k v kvs)"

text \<open>The inner loop of \<^verbatim>\<open>_process_data\<close> over the columns \<open>i\<close> of one two-dimensional
  array; \<^verbatim>\<open>self.axis[i]\<close> raises \<^verbatim>\<open>IndexError\<close> from the fourth column on.\<close>

fun split_columns ::
  "string \<Rightarrow> ndarray2 \<Rightarrow> nat list \<Rightarrow> (string \<times> ndarray1) list \<Rightarrow> py_error + (string \<times> ndarray1) list" where
  "split_columns key a [] processed = Inr processed"
| "split_columns key a (i # cols) processed =
     (if length axis \<le> i then Inl IndexError
      else if key = ''pos''
      then split_columns key a cols (dict_set (axis ! i) (column i a) processed)
      else split_columns key a cols (dict_set (key @ ''_'' @ axis ! i) (column i a) processed))"

fun process_data ::
  "(string \<times> field) list \<Rightarrow> (string \<times> ndarray1) list \<Rightarrow> py_error + (string \<times> ndarray1) list" where
  "process_data [] processed = Inr processed"
| "process_data ((key, Arr1 a) # flds) processed =
     process_data flds (dict_set key a processed)"
| "process_data ((key, Arr2 d a) # flds) processed =
     (case split_columns key a [0..<d] processed of
        Inl e \<Rightarrow> Inl e
      | Inr processed' \<Rightarrow> process_data flds processed')"

text \<open>\<^verbatim>\<open>write_frame\<close>: the data are processed first; then the file is opened for
  appending (which creates it) and the block is written. \<open>fin\<close> is not an argument of the
  source: it says whether the arrays passed are tracked. The arrays are taken to have
  \<open>natoms\<close> rows, as they have in \<^verbatim>\<open>run\<close>.\<close>

definition write_frame ::
  "string \<Rightarrow> int \<Rightarrow> int \<Rightarrow> box \<Rightarrow> bool \<Rightarrow> (string \<times> field) list \<Rightarrow> files \<Rightarrow> py_error + files" where
  "write_frame filename timestep n bx fin flds fls =
     (case process_data flds [] of
        Inl e \<Rightarrow> Inl e
      | Inr processed_data \<Rightarrow>
          Inr (fls(filename \<mapsto>
                 (case fls filename of None \<Rightarrow> [] | Some old \<Rightarrow> old)
                 @ [\<lparr>frame_timestep = timestep, frame_natoms = n, frame_box = bx,
                      frame_columns = processed_data, frame_tracked = fin\<rparr>])))"

section \<open>simulation.py\<close>

text \<open>A value of the trajectory dict: a Python list while the run appends to it, a numpy
  array once \<^verbatim>\<open>run\<close> has converted it. An array has no \<^verbatim>\<open>append\<close>.\<close>

datatype 'a pyseq = PyList "'a list" | NdArray "'a list"

fun elems :: "'a pyseq \<Rightarrow> 'a list" where
  "elems (PyList xs) = xs"
| "elems (NdArray xs) = xs"

fun py_append :: "'a pyseq \<Rightarrow> 'a \<Rightarrow> py_error + 'a pyseq" where
  "py_append (PyList xs) x = Inr (PyList (xs @ [x]))"
| "py_append (NdArray xs) x = Inl AttributeError"

text \<open>The trajectory dict. A temperature is a number, or \<open>None\<close> where numpy computed
  \<open>inf\<close> or \<open>nan\<close> or computed it from arrays that are no longer tracked.\<close>

record trajectory =
  traj_time :: "real pyseq"
  traj_temperature :: "real option pyseq"
  traj_kinetic_energy :: "real pyseq"

text \<open>The attributes of a \<^verbatim>\<open>LangevinSimulation\<close>. The last field is not one of them: it
  tells whether \<open>pos\<close> and \<open>vels\<close> are tracked. It is true as long as every number the two
  arrays hold is a real number; once an operation has stored \<open>inf\<close> or \<open>nan\<close> it is false
  for good, and \<open>pos\<close> and \<open>vels\<close> of the model then say nothing about the arrays. Neither
  the control flow of \<^verbatim>\<open>step\<close> and \<^verbatim>\<open>run\<close> nor any exception depends on the numbers in the
  arrays.\<close>

record sim =
  natoms :: int
  mass_per_particle :: real
  mass :: ndarray1
  box :: box
  ndims :: nat
  temperature :: real
  dt :: real
  relaxation_time :: real
  radius :: ndarray1
  boundary :: BoundaryCondition
  pos :: ndarray2
  vels :: ndarray2
  trajectory :: trajectory
  tracked :: bool

text \<open>\<^verbatim>\<open>_initialize_system\<close>: \<open>u\<close> are the draws of \<^verbatim>\<open>np.random.rand\<close>, \<open>z\<close> those of
  \<^verbatim>\<open>np.random.randn\<close>. With no particle the mean is never subtracted from anything.\<close>

definition initial_pos :: "nat \<Rightarrow> box \<Rightarrow> (nat \<Rightarrow> nat \<Rightarrow> real) \<Rightarrow> ndarray2" where
  "initial_pos n bx u =
     map (\<lambda>r. map2 (\<lambda>b x. fst b + (snd b - fst b) * x) bx r) (random_array u n (length bx))"

definition initial_vels :: "nat \<Rightarrow> nat \<Rightarrow> (nat \<Rightarrow> nat \<Rightarrow> real) \<Rightarrow> ndarray2" where
  "initial_vels n d z = (let v = random_array z n d in map (\<lambda>r. map2 (-) r (mean_axis0 v)) v)"

text \<open>\<^verbatim>\<open>LangevinSimulation.__init__\<close>. \<^verbatim>\<open>np.ones(natoms)\<close> raises \<^verbatim>\<open>ValueError\<close> for a negative
  size; \<^verbatim>\<open>create_boundary\<close> may raise; nothing else is checked.\<close>

definition LangevinSimulation ::
  "int \<Rightarrow> real \<Rightarrow> box \<Rightarrow> real \<Rightarrow> real \<Rightarrow> real \<Rightarrow> string \<Rightarrow> real \<Rightarrow>
   (nat \<Rightarrow> nat \<Rightarrow> real) \<Rightarrow> (nat \<Rightarrow> nat \<Rightarrow> real) \<Rightarrow> py_error + sim" where
  "LangevinSimulation n molar_mass bx temp timestep tau boundary_type rad u z =
     (if n < 0 then Inl (ValueError ''negative dimensions are not allowed'')
      else
        (case create_boundary boundary_type bx of
           Inl e \<Rightarrow> Inl e
         | Inr b \<Rightarrow>
             Inr \<lparr>natoms = n,
                  mass_per_particle = molar_mass / AVOGADRO,
                  mass = map (\<lambda>one. one * (molar_mass / AVOGADRO)) (replicate (nat n) 1),
                  box = bx,
                  ndims = length bx,
                  temperature = temp,
                  dt = timestep,
                  relaxation_time = tau,
                  radius = map (\<lambda>one. one * rad) (replicate (nat n) 1),
                  boundary = b,
                  pos = initial_pos (nat n) bx u,
                  vels = initial_vels (nat n) (length bx) z,
                  trajectory = \<lparr>traj_time = PyList [], traj_temperature = PyList [],
                                traj_kinetic_energy = PyList []\<rparr>,
                  tracked = True\<rparr>))"

text \<open>\<^verbatim>\<open>LangevinSimulation.step\<close>: force, integrator, boundary, in that order. It never
  raises: where one of the three leaves the reals, the arrays are no longer tracked.\<close>

definition step :: "sim \<Rightarrow> (nat \<Rightarrow> nat \<Rightarrow> real) \<Rightarrow> sim" where
  "step s z =
     (if \<not> tracked s then s
      else
        case compute_langevin_force (mass s) (vels s) (temperature s) (relaxation_time s) (dt s) z of
          Inl e \<Rightarrow> s\<lparr>tracked := False\<rparr>
        | Inr force \<Rightarrow>
           (case euler_integrate (pos s) (vels s) force (mass s) (dt s) of
              Inl e \<Rightarrow> s\<lparr>tracked := False\<rparr>
            | Inr pv \<Rightarrow>
               (case boundary_apply (boundary s) (fst pv) (snd pv) of
                  Inl e \<Rightarrow> s\<lparr>tracked := False\<rparr>
                | Inr pv' \<Rightarrow> s\<lparr>pos := fst pv', vels := snd pv'\<rparr>)))"

text \<open>\<open>k\<close> calls of \<open>step\<close> in a row; call \<open>k\<close> uses the draws \<open>zs k\<close>.\<close>

fun steps :: "nat \<Rightarrow> (nat \<Rightarrow> nat \<Rightarrow> nat \<Rightarrow> real) \<Rightarrow> sim \<Rightarrow> sim" where
  "steps 0 zs s = s"
| "steps (Suc k) zs s = step (steps k zs s) (zs (Suc k))"

text \<open>\<^verbatim>\<open>compute_temperature(self.mass, self.vels)\<close> as \<^verbatim>\<open>run\<close> calls it.\<close>

definition current_temperature :: "sim \<Rightarrow> real option" where
  "current_temperature s =
     (if tracked s
      then (case compute_temperature (mass s) (vels s) of Inl e \<Rightarrow> None | Inr t \<Rightarrow> Some t)
      else None)"

text \<open>The parts of the body of the loop of \<^verbatim>\<open>run\<close>, in the order of the source.
  \<open>record_sample\<close> is the two \<^verbatim>\<open>append\<close> calls.\<close>

definition record_sample :: "real \<Rightarrow> real option \<Rightarrow> sim \<Rightarrow> py_error + sim" where
  "record_sample current_time current_temp s =
     (case py_append (traj_time (trajectory s)) current_time of
        Inl e \<Rightarrow> Inl e
      | Inr tms \<Rightarrow>
         (case py_append (traj_temperature (trajectory s)) current_temp of
            Inl e \<Rightarrow> Inl e
          | Inr tmps \<Rightarrow>
              Inr (s\<lparr>trajectory := (trajectory s)\<lparr>traj_time := tms,
                                                  traj_temperature := tmps\<rparr>\<rparr>)))"

text \<open>\<^verbatim>\<open>if writer and step % dump_frequency == 0: writer.write_frame(...)\<close>. The writer
  is its file name; Python's \<^verbatim>\<open>%\<close> on integers raises for the divisor zero and
  otherwise agrees with \<open>mod\<close>.\<close>

definition dump_frame :: "string option \<Rightarrow> int \<Rightarrow> int \<Rightarrow> sim \<Rightarrow> files \<Rightarrow> py_error + files" where
  "dump_frame writer stp dump_frequency s fls =
     (case writer of
        None \<Rightarrow> Inr fls
      | Some filename \<Rightarrow>
          if dump_frequency = 0 then Inl ZeroDivisionError
          else if stp mod dump_frequency = 0
          then write_frame filename stp (natoms s) (box s) (tracked s)
                 [(''radius'', Arr1 (radius s)), (''pos'', Arr2 (ndims s) (pos s)),
                  (''v'', Arr2 (ndims s) (vels s))] fls
          else Inr fls)"

text \<open>\<^verbatim>\<open>if verbose and step % (nsteps // 10) == 0: print(...)\<close>. The output of \<^verbatim>\<open>print\<close> is
  not modelled; the exception of the test is.\<close>

definition print_progress :: "bool \<Rightarrow> int \<Rightarrow> int \<Rightarrow> py_error + unit" where
  "print_progress verbose stp nsteps =
     (if verbose then (if nsteps div 10 = 0 then Inl ZeroDivisionError else Inr ())
      else Inr ())"

text \<open>One pass of the loop, for the step number \<open>stp\<close>. An exception leaves the state
  and the files as they are at that point.\<close>

definition run_body ::
  "int \<Rightarrow> int \<Rightarrow> string option \<Rightarrow> int \<Rightarrow> bool \<Rightarrow> (nat \<Rightarrow> nat \<Rightarrow> real) \<Rightarrow> sim \<times> files
   \<Rightarrow> py_error option \<times> sim \<times> files" where
  "run_body stp nsteps writer dump_frequency verbose z w =
     (let s1 = step (fst w) z;
          current_temp = current_temperature s1;
          current_time = of_int stp * dt s1
      in case record_sample current_time current_temp s1 of
           Inl e \<Rightarrow> (Some e, s1, snd w)
         | Inr s2 \<Rightarrow>
            (case dump_frame writer stp dump_frequency s2 (snd w) of
               Inl e \<Rightarrow> (Some e, s2, snd w)
             | Inr fls \<Rightarrow>
                (case print_progress verbose stp nsteps of
                   Inl e \<Rightarrow> (Some e, s2, fls)
                 | Inr _ \<Rightarrow> (None, s2, fls))))"

text \<open>\<^verbatim>\<open>for step in range(1, nsteps + 1)\<close>: \<open>k\<close> passes are left, the next has the number
  \<open>stp\<close>; \<open>zs\<close> gives the draws of pass \<open>stp\<close>.\<close>

fun run_loop ::
  "nat \<Rightarrow> int \<Rightarrow> int \<Rightarrow> string option \<Rightarrow> int \<Rightarrow> bool \<Rightarrow> (nat \<Rightarrow> nat \<Rightarrow> nat \<Rightarrow> real) \<Rightarrow> sim \<times> files
   \<Rightarrow> py_error option \<times> sim \<times> files" where
  "run_loop 0 stp nsteps writer dump_frequency verbose zs w = (None, w)"
| "run_loop (Suc k) stp nsteps writer dump_frequency verbose zs w =
     (case run_body stp nsteps writer dump_frequency verbose (zs (nat stp)) w of
        (Some e, w') \<Rightarrow> (Some e, w')
      | (None, w') \<Rightarrow> run_loop k (stp + 1) nsteps writer dump_frequency verbose zs w')"

text \<open>\<^verbatim>\<open>np.array(self.trajectory[key])\<close> for every key.\<close>

definition to_arrays :: "trajectory \<Rightarrow> trajectory" where
  "to_arrays t = \<lparr>traj_time = NdArray (elems (traj_time t)),
                  traj_temperature = NdArray (elems (traj_temperature t)),
                  traj_kinetic_energy = NdArray (elems (traj_kinetic_energy t))\<rparr>"

text \<open>The start of \<^verbatim>\<open>run\<close>. \<^verbatim>\<open>if output_file:\<close> is false for \<^verbatim>\<open>None\<close> and for the empty
  string; otherwise an existing file at that path is removed and the writer, which is its
  file name, is created.\<close>

definition open_writer :: "string option \<Rightarrow> string option" where
  "open_writer output_file =
     (case output_file of
        None \<Rightarrow> None
      | Some filename \<Rightarrow> if filename = [] then None else Some filename)"

definition remove_old :: "string option \<Rightarrow> files \<Rightarrow> files" where
  "remove_old writer fls =
     (case writer of
        None \<Rightarrow> fls
      | Some filename \<Rightarrow> if fls filename \<noteq> None then fls(filename := None) else fls)"

text \<open>\<^verbatim>\<open>LangevinSimulation.run\<close>. The value returned is \<open>self.trajectory\<close>, the trajectory
  of the state returned here; an exception leaves the lists of the trajectory as they
  are.\<close>

definition run ::
  "sim \<Rightarrow> int \<Rightarrow> string option \<Rightarrow> int \<Rightarrow> bool \<Rightarrow> (nat \<Rightarrow> nat \<Rightarrow> nat \<Rightarrow> real) \<Rightarrow> files
   \<Rightarrow> py_error option \<times> sim \<times> files" where
  "run s nsteps output_file dump_frequency verbose zs fls =
     (let writer = open_writer output_file;
          fls0 = remove_old writer fls
      in case run_loop (nat nsteps) 1 nsteps writer dump_frequency verbose zs (s, fls0) of
           (Some e, w) \<Rightarrow> (Some e, w)
         | (None, w) \<Rightarrow> (None, (fst w)\<lparr>trajectory := to_arrays (trajectory (fst w))\<rparr>, snd w))"

section \<open>Auxiliary notions for the statements\<close>

text \<open>What \<open>reflect_axis\<close> does to one position and velocity component \<open>(x, v)\<close>.\<close>

definition reflect1 :: "real \<times> real \<Rightarrow> real \<times> real \<Rightarrow> real \<times> real" where
  "reflect1 b xv =
     (let xv1 = (if fst xv \<le> fst b then (fst b, \<bar>snd xv\<bar>) else xv)
      in if fst xv1 \<ge> snd b then (snd b, - \<bar>snd xv1\<bar>) else xv1)"

text \<open>Every component of every position lies within the bounds of its axis.\<close>

definition in_box :: "box \<Rightarrow> ndarray2 \<Rightarrow> bool" where
  "in_box bx a \<longleftrightarrow> (\<forall>r \<in> set a. \<forall>i < length bx. fst (bx ! i) \<le> r ! i \<and> r ! i \<le> snd (bx ! i))"

text \<open>Draws that are all zero, for concrete runs.\<close>

definition zero_draws :: "nat \<Rightarrow> nat \<Rightarrow> real" where
  "zero_draws p j = 0"

text \<open>The draws of a run in which every pass of the loop draws zeros.\<close>

definition no_noise :: "nat \<Rightarrow> nat \<Rightarrow> nat \<Rightarrow> real" where
  "no_noise k = zero_draws"

text \<open>The temperature as the spec words it, to be compared with \<open>compute_temperature\<close>:
  the centre-of-mass velocity is the mass-weighted mean of the velocities, the kinetic
  energy is taken relative to it, and the temperature is \<open>2 KE / (D N k_B)\<close>.\<close>

definition center_of_mass_velocity :: "ndarray1 \<Rightarrow> ndarray2 \<Rightarrow> ndarray1" where
  "center_of_mass_velocity ms vs =
     map (\<lambda>j. sum_list (map2 (\<lambda>m v. m * v ! j) ms vs) / sum_list ms) [0..<ncols vs]"

definition temperature_spec :: "ndarray1 \<Rightarrow> ndarray2 \<Rightarrow> real" where
  "temperature_spec ms vs =
     2 * (0.5 * sum_mass_sq ms (map (\<lambda>v. map2 (-) v (center_of_mass_velocity ms vs)) vs))
       / (real (ncols vs) * real (length vs) * BOLTZMANN)"

text \<open>The state of a simulation as the constructor builds it and \<open>step\<close> keeps it while
  the arrays are tracked: both arrays have one row per mass and one column per axis of
  the box, and the boundary holds the box of the simulation.\<close>

definition well_formed :: "sim \<Rightarrow> bool" where
  "well_formed s \<longleftrightarrow>
     has_shape (length (mass s)) (ndims s) (pos s)
   \<and> has_shape (length (mass s)) (ndims s) (vels s)
   \<and> ndims s = length (box s)
   \<and> (boundary s = ReflectiveBoundary (box s) \<or> boundary s = PeriodicBoundary (box s))
   \<and> tracked s"

text \<open>Parameters with which no step divides by zero or takes the root of a negative
  number: positive masses, timestep and relaxation time, a temperature that is not
  negative and, under the periodic boundary, no axis of length zero.\<close>

definition finite_regime :: "sim \<Rightarrow> bool" where
  "finite_regime s \<longleftrightarrow>
     (\<forall>m \<in> set (mass s). 0 < m) \<and> 0 \<le> temperature s \<and> 0 < dt s \<and> 0 < relaxation_time s
   \<and> (boundary s = PeriodicBoundary (box s) \<longrightarrow> (\<forall>b \<in> set (box s). fst b \<noteq> snd b))"

text \<open>The frames of the file at a path; none when there is no file.\<close>

definition file_frames :: "files \<Rightarrow> string \<Rightarrow> frame list" where
  "file_frames fls filename = (case fls filename of None \<Rightarrow> [] | Some frames \<Rightarrow> frames)"

text \<open>Concrete draws and states for the examples. \<open>half_draws\<close> puts every particle in the
  middle of the box; \<open>index_draws\<close> gives particle \<open>p\<close> the number \<open>p\<close>.\<close>

definition half_draws :: "nat \<Rightarrow> nat \<Rightarrow> real" where
  "half_draws p j = 1 / 2"

definition index_draws :: "nat \<Rightarrow> nat \<Rightarrow> real" where
  "index_draws p j = real p"

text \<open>One particle at rest on the lower bound of a box whose only axis has the bounds
  \<open>(lo, hi)\<close>, with timestep \<open>h\<close>: what the constructor builds from the molar mass \<open>1\<close>,
  temperature \<open>0\<close>, relaxation time \<open>1\<close>, the reflective boundary and draws that are all
  zero.\<close>

definition resting_sim :: "real \<Rightarrow> real \<Rightarrow> real \<Rightarrow> sim" where
  "resting_sim lo hi h =
     \<lparr>natoms = 1, mass_per_particle = 1 / AVOGADRO, mass = [1 / AVOGADRO],
      box = [(lo, hi)], ndims = 1, temperature = 0, dt = h, relaxation_time = 1,
      radius = [1], boundary = ReflectiveBoundary [(lo, hi)],
      pos = [[lo]], vels = [[0]],
      trajectory = \<lparr>traj_time = PyList [], traj_temperature = PyList [],
                    traj_kinetic_energy = PyList []\<rparr>,
      tracked = True\<rparr>"

section \<open>Shapes\<close>

lemma has_shape_length: "has_shape n d a \<Longrightarrow> length a = n"
  by (simp add: has_shape_def)

lemma assign_where_nth:
  "length msk = length a \<Longrightarrow> p < length a \<Longrightarrow>
   assign_where i msk f a ! p = (if msk ! p then (a ! p)[i := f (a ! p ! i)] else a ! p)"
  by (simp add: assign_where_def)

lemma assign_where_length: "length msk = length a \<Longrightarrow> length (assign_where i msk f a) = length a"
  by (simp add: assign_where_def)

lemma assign_where_shape:
  "length msk = n \<Longrightarrow> has_shape n d a \<Longrightarrow> has_shape n d (assign_where i msk f a)"
  by (auto simp: assign_where_def has_shape_def dest!: set_zip_rightD)

lemma reflect_axis_shape:
  assumes "has_shape n d ps" "has_shape n d vs"
  shows "has_shape n d (fst (reflect_axis i b (ps, vs)))"
    and "has_shape n d (snd (reflect_axis i b (ps, vs)))"
  using assms has_shape_length [OF assms(1)] has_shape_length [OF assms(2)]
  by (auto simp: reflect_axis_def Let_def column_def assign_where_length intro!: assign_where_shape)

lemma reflect_axis_nth:
  assumes "has_shape n d ps" "has_shape n d vs" "p < n" "j < d" "i < d"
  shows "fst (reflect_axis i b (ps, vs)) ! p ! j =
           (if j = i then fst (reflect1 b (ps ! p ! i, vs ! p ! i)) else ps ! p ! j)"
    and "snd (reflect_axis i b (ps, vs)) ! p ! j =
           (if j = i then snd (reflect1 b (ps ! p ! i, vs ! p ! i)) else vs ! p ! j)"
  using assms
  by (auto simp: reflect_axis_def Let_def column_def has_shape_def assign_where_nth assign_where_length reflect1_def)

lemma reflective_fold:
  assumes "has_shape n d ps" "has_shape n d vs" "distinct axes" "\<forall>i \<in> set axes. i < d"
  shows "has_shape n d (fst (fold (\<lambda>i pv. reflect_axis i (bx ! i) pv) axes (ps, vs)))
       \<and> has_shape n d (snd (fold (\<lambda>i pv. reflect_axis i (bx ! i) pv) axes (ps, vs)))
       \<and> (\<forall>p < n. \<forall>j < d.
            fst (fold (\<lambda>i pv. reflect_axis i (bx ! i) pv) axes (ps, vs)) ! p ! j =
              (if j \<in> set axes then fst (reflect1 (bx ! j) (ps ! p ! j, vs ! p ! j)) else ps ! p ! j)
          \<and> snd (fold (\<lambda>i pv. reflect_axis i (bx ! i) pv) axes (ps, vs)) ! p ! j =
              (if j \<in> set axes then snd (reflect1 (bx ! j) (ps ! p ! j, vs ! p ! j)) else vs ! p ! j))"
  using assms
proof (induction axes arbitrary: ps vs)
  case Nil
  then show ?case by simp
next
  case (Cons i axes)
  obtain ps1 vs1 where stp: "reflect_axis i (bx ! i) (ps, vs) = (ps1, vs1)"
    by (cases "reflect_axis i (bx ! i) (ps, vs)")
  have sh1: "has_shape n d ps1" "has_shape n d vs1"
    using reflect_axis_shape [OF Cons.prems(1,2), of i "bx ! i"] stp by simp_all
  have i: "i < d" "i \<notin> set axes" using Cons.prems by simp_all
  have nth1: "\<And>p j. p < n \<Longrightarrow> j < d \<Longrightarrow>
      ps1 ! p ! j = (if j = i then fst (reflect1 (bx ! i) (ps ! p ! i, vs ! p ! i)) else ps ! p ! j)
    \<and> vs1 ! p ! j = (if j = i then snd (reflect1 (bx ! i) (ps ! p ! i, vs ! p ! i)) else vs ! p ! j)"
    using reflect_axis_nth [OF Cons.prems(1,2) _ _ i(1), of _ _ "bx ! i"] stp by simp
  have IH: "has_shape n d (fst (fold (\<lambda>i pv. reflect_axis i (bx ! i) pv) axes (ps1, vs1)))
       \<and> has_shape n d (snd (fold (\<lambda>i pv. reflect_axis i (bx ! i) pv) axes (ps1, vs1)))
       \<and> (\<forall>p < n. \<forall>j < d.
            fst (fold (\<lambda>i pv. reflect_axis i (bx ! i) pv) axes (ps1, vs1)) ! p ! j =
              (if j \<in> set axes then fst (reflect1 (bx ! j) (ps1 ! p ! j, vs1 ! p ! j)) else ps1 ! p ! j)
          \<and> snd (fold (\<lambda>i pv. reflect_axis i (bx ! i) pv) axes (ps1, vs1)) ! p ! j =
              (if j \<in> set axes then snd (reflect1 (bx ! j) (ps1 ! p ! j, vs1 ! p ! j)) else vs1 ! p ! j))"
    using Cons.IH [OF sh1] Cons.prems by simp
  show ?case
    using IH i nth1 by (auto simp: stp)
qed

lemma reflective_apply_shape:
  assumes "has_shape n (length bx) ps" "has_shape n (length bx) vs"
  shows "has_shape n (length bx) (fst (reflective_apply bx ps vs))"
    and "has_shape n (length bx) (snd (reflective_apply bx ps vs))"
  using reflective_fold [OF assms, of "[0..<length bx]" bx]
  by (simp_all add: reflective_apply_def)

lemma reflective_apply_nth:
  assumes "has_shape n (length bx) ps" "has_shape n (length bx) vs" "p < n" "j < length bx"
  shows "fst (reflective_apply bx ps vs) ! p ! j = fst (reflect1 (bx ! j) (ps ! p ! j, vs ! p ! j))"
    and "snd (reflective_apply bx ps vs) ! p ! j = snd (reflect1 (bx ! j) (ps ! p ! j, vs ! p ! j))"
  using reflective_fold [OF assms(1,2), of "[0..<length bx]" bx] assms(3,4)
  by (simp_all add: reflective_apply_def)

section \<open>Reflective boundary: postconditions\<close>


text \<open>The case of \<^verbatim>\<open>tests/test_boundary.py\<close>: a particle at \<open>-1\<close> in the box \<open>(0, 10)\<close>.\<close>

lemma test_box_eval:
  "reflective_apply [(0, 10), (0, 10), (0, 10)] [[-1, 5, 5]] [[-1, 0, 0]]
     = ([[0, 5, 5]], [[1, 0, 0]])"
  by (simp add: reflective_apply_def reflect_axis_def column_def assign_where_def upt_rec)



section \<open>Periodic boundary\<close>

lemma np_mod_range:
  assumes "0 < y"
  shows "0 \<le> np_mod x y" and "np_mod x y < y"
proof -
  have "of_int \<lfloor>x / y\<rfloor> * y \<le> x"
    by (simp add: pos_le_divide_eq [OF assms, symmetric])
  then show "0 \<le> np_mod x y" by (simp add: np_mod_def mult.commute)
  have "x < (of_int \<lfloor>x / y\<rfloor> + 1) * y"
    by (simp add: pos_divide_less_eq [OF assms, symmetric])
  then show "np_mod x y < y" by (simp add: np_mod_def algebra_simps)
qed

lemma wrap_axis_ok:
  assumes "fst b \<noteq> snd b" "has_shape n d ps"
  shows "\<exists>ps'. wrap_axis i b ps = Inr ps' \<and> has_shape n d ps'
          \<and> (\<forall>p < n. \<forall>j < d. ps' ! p ! j =
                (if j = i then fst b + np_mod (ps ! p ! i - fst b) (snd b - fst b) else ps ! p ! j))"
  using assms by (auto simp: wrap_axis_def has_shape_def)

lemma periodic_loop_ok:
  assumes "has_shape n d ps" "distinct axes" "\<forall>i \<in> set axes. i < d \<and> fst (bx ! i) \<noteq> snd (bx ! i)"
  shows "\<exists>ps'. periodic_loop axes bx ps = Inr ps' \<and> has_shape n d ps'
          \<and> (\<forall>p < n. \<forall>j < d. ps' ! p ! j =
                (if j \<in> set axes
                 then fst (bx ! j) + np_mod (ps ! p ! j - fst (bx ! j)) (snd (bx ! j) - fst (bx ! j))
                 else ps ! p ! j))"
  using assms
proof (induction axes arbitrary: ps)
  case Nil
  then show ?case by simp
next
  case (Cons i axes)
  have i: "i < d" "fst (bx ! i) \<noteq> snd (bx ! i)" "i \<notin> set axes"
    using Cons.prems by simp_all
  obtain ps1 where w: "wrap_axis i (bx ! i) ps = Inr ps1" and sh1: "has_shape n d ps1"
    and nth1: "\<forall>p < n. \<forall>j < d. ps1 ! p ! j =
        (if j = i then fst (bx ! i) + np_mod (ps ! p ! i - fst (bx ! i)) (snd (bx ! i) - fst (bx ! i))
         else ps ! p ! j)"
    using wrap_axis_ok [OF i(2) Cons.prems(1), of i] by blast
  obtain ps' where l: "periodic_loop axes bx ps1 = Inr ps'" and sh': "has_shape n d ps'"
    and nth': "\<forall>p < n. \<forall>j < d. ps' ! p ! j =
        (if j \<in> set axes
         then fst (bx ! j) + np_mod (ps1 ! p ! j - fst (bx ! j)) (snd (bx ! j) - fst (bx ! j))
         else ps1 ! p ! j)"
    using Cons.IH [OF sh1] Cons.prems by auto
  have "periodic_loop (i # axes) bx ps = Inr ps'" using w l by simp
  moreover have "\<forall>p < n. \<forall>j < d. ps' ! p ! j =
        (if j \<in> set (i # axes)
         then fst (bx ! j) + np_mod (ps ! p ! j - fst (bx ! j)) (snd (bx ! j) - fst (bx ! j))
         else ps ! p ! j)"
    using nth1 nth' i by auto
  ultimately show ?case using sh' by blast
qed

lemma periodic_apply_ok:
  assumes "has_shape n (length bx) ps" "\<forall>b \<in> set bx. fst b \<noteq> snd b"
  shows "\<exists>ps'. periodic_apply bx ps vs = Inr (ps', vs) \<and> has_shape n (length bx) ps'
          \<and> (\<forall>p < n. \<forall>j < length bx. ps' ! p ! j =
                fst (bx ! j) + np_mod (ps ! p ! j - fst (bx ! j)) (snd (bx ! j) - fst (bx ! j)))"
proof -
  have "\<forall>i \<in> set [0..<length bx]. i < length bx \<and> fst (bx ! i) \<noteq> snd (bx ! i)"
    using assms(2) by simp
  from periodic_loop_ok [OF assms(1) distinct_upt this]
  show ?thesis by (auto simp: periodic_apply_def)
qed

section \<open>Selection of the boundary\<close>

text \<open>
  Claim C9. \<^verbatim>\<open>create_boundary\<close> returns the reflective boundary when the name, lowered,
  is \<^verbatim>\<open>reflective\<close>, the periodic boundary when it is \<^verbatim>\<open>periodic\<close>, each holding the box
  passed in; for every other name it raises the error of the configuration (Python's
  \<^verbatim>\<open>ValueError\<close>) whose message names the rejected type and lists the two valid ones, and
  returns no boundary.
\<close>

theorem create_boundary_selection:
  "(lower boundary_type = ''reflective'' \<longrightarrow>
      create_boundary boundary_type bx = Inr (ReflectiveBoundary bx))
   \<and> (lower boundary_type = ''periodic'' \<longrightarrow>
      create_boundary boundary_type bx = Inr (PeriodicBoundary bx))
   \<and> (lower boundary_type \<noteq> ''reflective'' \<and> lower boundary_type \<noteq> ''periodic'' \<longrightarrow>
      create_boundary boundary_type bx =
        Inl (ValueError (''Unknown boundary type: '' @ boundary_type
               @ ''. Available types: ['reflective', 'periodic']'')))"
  by (simp add: create_boundary_def boundary_types_def repr_list_def repr_str_def)

theorem create_boundary_selection_witness:
  "lower ''Reflective'' = ''reflective''
   \<and> create_boundary ''Reflective'' [(0, 1)] = Inr (ReflectiveBoundary [(0, 1)])
   \<and> lower ''PERIODIC'' = ''periodic''
   \<and> create_boundary ''PERIODIC'' [(0, 1)] = Inr (PeriodicBoundary [(0, 1)])
   \<and> lower ''absorbing'' \<noteq> ''reflective'' \<and> lower ''absorbing'' \<noteq> ''periodic''
   \<and> create_boundary ''absorbing'' [(0, 1)] =
        Inl (ValueError ''Unknown boundary type: absorbing. Available types: ['reflective', 'periodic']'')"
  using create_boundary_selection [of "''Reflective''" "[(0, 1)]"]
    create_boundary_selection [of "''PERIODIC''" "[(0, 1)]"]
    create_boundary_selection [of "''absorbing''" "[(0, 1)]"]
  by (simp add: lower_def lower_char_def)

section \<open>Euler integrator\<close>

lemma has_shape_nth: "has_shape n d a \<Longrightarrow> p < n \<Longrightarrow> length (a ! p) = d"
  by (simp add: has_shape_def)

lemma euler_integrate_ok:
  assumes "\<forall>x \<in> set m. x \<noteq> 0"
  shows "euler_integrate ps vs f m t =
           Inr (map2 (map2 (\<lambda>x v. x + v * t)) ps vs,
                map2 (\<lambda>v (fr, mp). map2 (\<lambda>vx fx. vx + fx * t / mp) v fr) vs (zip f m))"
  using assms by (auto simp: euler_integrate_def dest: set_zip_rightD)

lemma has_shape_iff_nth: "has_shape n d a \<longleftrightarrow> length a = n \<and> (\<forall>p < n. length (a ! p) = d)"
  by (auto simp: has_shape_def all_set_conv_all_nth)

lemma euler_integrate_shape:
  assumes "has_shape n d ps" "has_shape n d vs" "has_shape n d f" "length m = n"
    and "euler_integrate ps vs f m t = Inr (ps', vs')"
  shows "has_shape n d ps'" and "has_shape n d vs'"
  using assms
  by (auto simp: euler_integrate_def has_shape_iff_nth split: if_splits)

section \<open>Temperature\<close>

lemma BOLTZMANN_pos: "0 < BOLTZMANN"
  by (simp add: BOLTZMANN_def)

lemma weighted_sum_replicate:
  "length vs = n \<Longrightarrow>
   sum_list (map2 (\<lambda>m v. m * v ! j) (replicate n c) vs) = c * sum_list (column j vs)"
proof (induction vs arbitrary: n)
  case Nil
  then show ?case by (simp add: column_def)
next
  case (Cons v vs)
  then obtain k where n: "n = Suc k" "length vs = k" by (cases n) auto
  show ?case using Cons.IH [OF n(2)] n by (simp add: column_def algebra_simps)
qed

lemma center_of_mass_equal_masses:
  assumes "c \<noteq> 0"
  shows "center_of_mass_velocity (replicate (length vs) c) vs = mean_axis0 vs"
proof (cases "vs = []")
  case True
  then show ?thesis by (simp add: center_of_mass_velocity_def mean_axis0_def ncols_def)
next
  case False
  then have "real (length vs) \<noteq> 0" by simp
  then show ?thesis
    using assms
    by (simp add: center_of_mass_velocity_def mean_axis0_def weighted_sum_replicate sum_list_replicate)
qed

text \<open>When all masses are equal, as they are for the arrays \<^verbatim>\<open>run\<close> passes, the plain mean
  is the centre-of-mass velocity and \<open>compute_temperature\<close> returns the spec's value.\<close>

lemma compute_temperature_equal_masses:
  assumes "c \<noteq> 0" "vs \<noteq> []" "0 < ncols vs"
  shows "compute_temperature (replicate (length vs) c) vs
           = Inr (temperature_spec (replicate (length vs) c) vs)"
  using assms
  by (simp add: compute_temperature_def temperature_spec_def center_of_mass_equal_masses Let_def)

text \<open>
  Claim C5, at an input where the code departs from it. \<^verbatim>\<open>compute_temperature\<close> takes
  \<^verbatim>\<open>np.mean(vels, axis=0)\<close>, the plain mean, for what its comment calls the centre-of-mass
  velocity. For the masses \<open>1\<close> and \<open>3\<close> with the velocities \<open>0\<close> and \<open>4\<close> on one axis the
  plain mean is \<open>2\<close> and the code returns \<open>8 / k_B\<close>; the mass-weighted mean is \<open>3\<close> and
  the temperature of the claim is \<open>6 / k_B\<close>.
\<close>

theorem compute_temperature_unequal_masses:
  "compute_temperature [1, 3] [[0], [4]] = Inr (8 / BOLTZMANN)
   \<and> temperature_spec [1, 3] [[0], [4]] = 6 / BOLTZMANN
   \<and> compute_temperature [1, 3] [[0], [4]] \<noteq> Inr (temperature_spec [1, 3] [[0], [4]])"
proof -
  have a: "compute_temperature [1, 3] [[0], [4]] = Inr (8 / BOLTZMANN)"
    by (simp add: compute_temperature_def ncols_def mean_axis0_def column_def sum_mass_sq_def)
  have b: "temperature_spec [1, 3] [[0], [4]] = 6 / BOLTZMANN"
    by (simp add: temperature_spec_def center_of_mass_velocity_def ncols_def sum_mass_sq_def)
  have "8 / BOLTZMANN \<noteq> 6 / BOLTZMANN"
    using BOLTZMANN_pos by (simp add: divide_simps)
  then show ?thesis using a b by simp
qed

section \<open>One step of the simulation\<close>

lemma ncols_shape: "has_shape n d a \<Longrightarrow> 0 < n \<Longrightarrow> ncols a = d"
  by (cases a) (auto simp: has_shape_def ncols_def)

lemma langevin_force_ok:
  assumes "has_shape n d vs" "length ms = n" "\<forall>m \<in> set ms. 0 < m"
    and "0 \<le> T" "0 < tau" "0 < t"
  shows "\<exists>f. compute_langevin_force ms vs T tau t z = Inr f \<and> has_shape n d f"
proof -
  have nonneg: "\<not> (\<exists>m \<in> set ms. 2 * m * T * BOLTZMANN / (tau * t) < 0)"
  proof
    assume "\<exists>m \<in> set ms. 2 * m * T * BOLTZMANN / (tau * t) < 0"
    then obtain m where m: "m \<in> set ms" "2 * m * T * BOLTZMANN / (tau * t) < 0" by blast
    have "0 < m" using m(1) assms(3) by blast
    then have "0 \<le> 2 * m * T * BOLTZMANN"
      using assms(4) BOLTZMANN_pos by (intro mult_nonneg_nonneg) simp_all
    moreover have "0 < tau * t" using assms(5,6) by simp
    ultimately have "0 \<le> 2 * m * T * BOLTZMANN / (tau * t)"
      by (rule divide_nonneg_pos)
    then show False using m(2) by simp
  qed
  have tt: "tau * t \<noteq> 0" "tau \<noteq> 0" using assms(5,6) by simp_all
  have len: "length vs = n" using assms(1) by (simp add: has_shape_def)
  have rows: "\<forall>p < n. length (vs ! p) = d" using assms(1) by (simp add: has_shape_iff_nth)
  show ?thesis
  proof (cases "n = 0")
    case True
    then show ?thesis using nonneg tt len assms(2)
      by (simp add: compute_langevin_force_def Let_def has_shape_def random_array_def)
  next
    case False
    then have nc: "ncols vs = d" using ncols_shape [OF assms(1)] by simp
    show ?thesis using nonneg tt len rows assms(2) nc
      by (simp add: compute_langevin_force_def Let_def has_shape_iff_nth random_array_def)
  qed
qed

lemma reflect1_in_bounds:
  "fst b \<le> snd b \<Longrightarrow> fst b \<le> fst (reflect1 b xv) \<and> fst (reflect1 b xv) \<le> snd b"
  by (auto simp: reflect1_def Let_def)

lemma reflective_apply_in_box:
  assumes "has_shape n (length bx) ps" "has_shape n (length bx) vs"
    and "\<forall>c \<in> set bx. fst c \<le> snd c"
  shows "in_box bx (fst (reflective_apply bx ps vs))"
proof -
  have sh: "has_shape n (length bx) (fst (reflective_apply bx ps vs))"
    by (rule reflective_apply_shape [OF assms(1,2)])
  have "fst (bx ! i) \<le> fst (reflective_apply bx ps vs) ! p ! i
        \<and> fst (reflective_apply bx ps vs) ! p ! i \<le> snd (bx ! i)"
    if "p < n" "i < length bx" for p i
    using reflective_apply_nth(1) [OF assms(1,2) that] reflect1_in_bounds [of "bx ! i"] assms(3) that(2)
    by simp
  then show ?thesis
    using sh by (auto simp: in_box_def has_shape_def in_set_conv_nth)
qed

lemma boundary_apply_ok:
  assumes "has_shape n (length bx) ps" "has_shape n (length bx) vs"
    and "b = ReflectiveBoundary bx \<or> b = PeriodicBoundary bx"
    and "b = PeriodicBoundary bx \<longrightarrow> (\<forall>c \<in> set bx. fst c \<noteq> snd c)"
  shows "\<exists>ps' vs'. boundary_apply b ps vs = Inr (ps', vs')
          \<and> has_shape n (length bx) ps' \<and> has_shape n (length bx) vs'
          \<and> (b = ReflectiveBoundary bx \<and> (\<forall>c \<in> set bx. fst c \<le> snd c) \<longrightarrow> in_box bx ps')"
proof (cases "b = ReflectiveBoundary bx")
  case True
  show ?thesis
    using True reflective_apply_shape [OF assms(1,2)] reflective_apply_in_box [OF assms(1,2)]
    by (cases "reflective_apply bx ps vs") auto
next
  case False
  then have b: "b = PeriodicBoundary bx" and nz: "\<forall>c \<in> set bx. fst c \<noteq> snd c"
    using assms(3,4) by auto
  show ?thesis
    using periodic_apply_ok [OF assms(1) nz, of vs] b assms(2) by auto
qed

text \<open>A step changes the positions, the velocities and whether they are tracked, and
  nothing else.\<close>

lemma step_fields: "\<exists>ps' vs' fin. step s z = s\<lparr>pos := ps', vels := vs', tracked := fin\<rparr>"
proof -
  have a: "s = s\<lparr>pos := pos s, vels := vels s, tracked := tracked s\<rparr>" by simp
  have b: "s\<lparr>tracked := False\<rparr> = s\<lparr>pos := pos s, vels := vels s, tracked := False\<rparr>" by simp
  have c: "\<And>p v. s\<lparr>pos := p, vels := v\<rparr> = s\<lparr>pos := p, vels := v, tracked := tracked s\<rparr>" by simp
  show ?thesis
    unfolding step_def
    by (auto split: sum.splits intro: exI [of _ "pos s"] a b c)
qed

lemma step_keeps [simp]:
  "dt (step s z) = dt s" "ndims (step s z) = ndims s" "trajectory (step s z) = trajectory s"
  "natoms (step s z) = natoms s" "box (step s z) = box s" "boundary (step s z) = boundary s"
  "mass (step s z) = mass s"
proof -
  obtain ps' vs' fin where "step s z = s\<lparr>pos := ps', vels := vs', tracked := fin\<rparr>"
    using step_fields by blast
  then show "dt (step s z) = dt s" "ndims (step s z) = ndims s"
    "trajectory (step s z) = trajectory s" "natoms (step s z) = natoms s"
    "box (step s z) = box s" "boundary (step s z) = boundary s" "mass (step s z) = mass s"
    by simp_all
qed

text \<open>A step of a well-formed simulation in the finite regime keeps the arrays tracked;
  under the reflective boundary of a box with \<open>min \<le> max\<close> on every axis the new
  positions are inside the box.\<close>

lemma step_ok:
  assumes "well_formed s" "finite_regime s"
  shows "\<exists>ps' vs'. step s z = s\<lparr>pos := ps', vels := vs'\<rparr>
          \<and> well_formed (s\<lparr>pos := ps', vels := vs'\<rparr>)
          \<and> finite_regime (s\<lparr>pos := ps', vels := vs'\<rparr>)
          \<and> (boundary s = ReflectiveBoundary (box s) \<and> (\<forall>c \<in> set (box s). fst c \<le> snd c)
               \<longrightarrow> in_box (box s) ps')"
proof -
  let ?n = "length (mass s)" and ?d = "length (box s)"
  have shp: "has_shape ?n ?d (pos s)" and shv: "has_shape ?n ?d (vels s)"
    and bd: "boundary s = ReflectiveBoundary (box s) \<or> boundary s = PeriodicBoundary (box s)"
    and trk: "tracked s"
    using assms(1) by (auto simp: well_formed_def)
  have reg: "\<forall>m \<in> set (mass s). 0 < m" "0 \<le> temperature s" "0 < dt s" "0 < relaxation_time s"
    and per: "boundary s = PeriodicBoundary (box s) \<longrightarrow> (\<forall>b \<in> set (box s). fst b \<noteq> snd b)"
    using assms(2) by (simp_all add: finite_regime_def)
  obtain f where f: "compute_langevin_force (mass s) (vels s) (temperature s) (relaxation_time s) (dt s) z = Inr f"
    and shf: "has_shape ?n ?d f"
    using langevin_force_ok [OF shv refl reg(1,2,4,3)] by blast
  have nz: "\<forall>x \<in> set (mass s). x \<noteq> 0" using reg(1) by auto
  obtain ps1 vs1 where e: "euler_integrate (pos s) (vels s) f (mass s) (dt s) = Inr (ps1, vs1)"
    and sh1: "has_shape ?n ?d ps1" "has_shape ?n ?d vs1"
    using euler_integrate_ok [OF nz] euler_integrate_shape [OF shp shv shf refl] by blast
  obtain ps' vs' where b: "boundary_apply (boundary s) ps1 vs1 = Inr (ps', vs')"
    and sh': "has_shape ?n ?d ps'" "has_shape ?n ?d vs'"
    and inb: "boundary s = ReflectiveBoundary (box s) \<and> (\<forall>c \<in> set (box s). fst c \<le> snd c)
               \<longrightarrow> in_box (box s) ps'"
    using boundary_apply_ok [OF sh1 bd per] by blast
  have "step s z = s\<lparr>pos := ps', vels := vs'\<rparr>"
    using trk f e b by (simp add: step_def)
  moreover have "well_formed (s\<lparr>pos := ps', vels := vs'\<rparr>)"
    using assms(1) sh' by (auto simp: well_formed_def)
  moreover have "finite_regime (s\<lparr>pos := ps', vels := vs'\<rparr>)"
    using assms(2) by (simp add: finite_regime_def)
  ultimately show ?thesis using inb by blast
qed

section \<open>Construction\<close>

lemma AVOGADRO_pos: "0 < AVOGADRO"
  by (simp add: AVOGADRO_def)

lemma random_array_shape: "has_shape n d (random_array z n d)"
  by (simp add: has_shape_def random_array_def)

lemma initial_pos_shape: "has_shape n (length bx) (initial_pos n bx u)"
  by (simp add: has_shape_iff_nth initial_pos_def random_array_def)

lemma initial_vels_shape: "has_shape n d (initial_vels n d z)"
proof (cases "n = 0")
  case True
  then show ?thesis by (simp add: has_shape_def initial_vels_def random_array_def)
next
  case False
  then have "ncols (random_array z n d) = d"
    using ncols_shape [OF random_array_shape, of n z d] by simp
  then show ?thesis
    by (simp add: has_shape_iff_nth initial_vels_def Let_def random_array_def mean_axis0_def)
qed

lemma create_boundary_cases:
  assumes "create_boundary bt bx = Inr b"
  shows "(lower bt = ''reflective'' \<and> b = ReflectiveBoundary bx)
       \<or> (lower bt = ''periodic'' \<and> b = PeriodicBoundary bx)"
  using assms
  by (auto simp: create_boundary_def boundary_types_def split: if_splits)

lemma create_boundary_known:
  "lower boundary_type = ''reflective'' \<or> lower boundary_type = ''periodic'' \<Longrightarrow>
   \<exists>b. create_boundary boundary_type bx = Inr b"
  by (auto simp: create_boundary_def boundary_types_def)

lemma create_boundary_unknown:
  "lower boundary_type \<noteq> ''reflective'' \<Longrightarrow> lower boundary_type \<noteq> ''periodic'' \<Longrightarrow>
   \<exists>msg. create_boundary boundary_type bx = Inl (ValueError msg)"
  by (simp add: create_boundary_def boundary_types_def)

lemma LangevinSimulation_state:
  assumes "LangevinSimulation n M bx T t tau bt rad u z = Inr s"
  shows "0 \<le> n" and "natoms s = n"
    and "mass_per_particle s = M / AVOGADRO"
    and "mass s = replicate (nat n) (M / AVOGADRO)"
    and "box s = bx" and "ndims s = length bx"
    and "temperature s = T" and "dt s = t" and "relaxation_time s = tau"
    and "create_boundary bt bx = Inr (boundary s)"
    and "pos s = initial_pos (nat n) bx u" and "vels s = initial_vels (nat n) (length bx) z"
    and "trajectory s = \<lparr>traj_time = PyList [], traj_temperature = PyList [],
                          traj_kinetic_energy = PyList []\<rparr>"
    and "tracked s"
  using assms
  by (auto simp: LangevinSimulation_def map_replicate_const split: if_splits sum.splits)

lemma LangevinSimulation_well_formed:
  assumes "LangevinSimulation n M bx T t tau bt rad u z = Inr s"
  shows "well_formed s"
  using LangevinSimulation_state [OF assms] create_boundary_cases [of bt bx "boundary s"]
    initial_pos_shape [of "nat n" bx u] initial_vels_shape [of "nat n" "length bx" z]
  by (auto simp: well_formed_def)

lemma LangevinSimulation_finite_regime:
  assumes "LangevinSimulation n M bx T t tau bt rad u z = Inr s"
    and "0 < M" "0 \<le> T" "0 < t" "0 < tau"
    and "lower bt = ''periodic'' \<longrightarrow> (\<forall>b \<in> set bx. fst b \<noteq> snd b)"
  shows "finite_regime s"
  using LangevinSimulation_state [OF assms(1)] create_boundary_cases [of bt bx "boundary s"]
    assms(2-6) AVOGADRO_pos
  by (auto simp: finite_regime_def)

lemma steps_ok:
  assumes "well_formed s" "finite_regime s"
  shows "\<exists>ps' vs'. steps k zs s = s\<lparr>pos := ps', vels := vs'\<rparr>
          \<and> well_formed (s\<lparr>pos := ps', vels := vs'\<rparr>)
          \<and> finite_regime (s\<lparr>pos := ps', vels := vs'\<rparr>)
          \<and> (0 < k \<and> boundary s = ReflectiveBoundary (box s) \<and> (\<forall>c \<in> set (box s). fst c \<le> snd c)
               \<longrightarrow> in_box (box s) ps')"
proof (induction k)
  case 0
  have "s\<lparr>pos := pos s, vels := vels s\<rparr> = s" by simp
  then show ?case using assms by (metis steps.simps(1) less_irrefl)
next
  case (Suc k)
  then obtain ps1 vs1 where k: "steps k zs s = s\<lparr>pos := ps1, vels := vs1\<rparr>"
    and wf: "well_formed (s\<lparr>pos := ps1, vels := vs1\<rparr>)"
    and fr: "finite_regime (s\<lparr>pos := ps1, vels := vs1\<rparr>)" by blast
  from step_ok [OF wf fr, of "zs (Suc k)"]
  show ?case using k by auto
qed

lemma check_required_ok:
  "(\<forall>key \<in> set keys. cfg key \<noteq> None) \<Longrightarrow> check_required keys cfg = Inr ()"
  by (induction keys) auto

section \<open>The loop of run\<close>

lemma well_formed_trajectory_update [simp]:
  "well_formed (s\<lparr>trajectory := tr\<rparr>) = well_formed s"
  by (simp add: well_formed_def)

lemma finite_regime_trajectory_update [simp]:
  "finite_regime (s\<lparr>trajectory := tr\<rparr>) = finite_regime s"
  by (simp add: finite_regime_def)

lemma record_sample_fields:
  assumes "record_sample tm tp s = Inr s'"
  shows "\<exists>tr. s' = s\<lparr>trajectory := tr\<rparr>"
  using assms by (auto simp: record_sample_def split: sum.splits)

text \<open>However a pass of the loop ends, the state it leaves is the state after its step,
  up to the trajectory.\<close>

lemma run_body_state:
  "\<exists>tr. fst (snd (run_body stp nsteps w df vb z (s, fls))) = (step s z)\<lparr>trajectory := tr\<rparr>"
proof (cases "record_sample (of_int stp * dt (step s z)) (current_temperature (step s z)) (step s z)")
  case (Inl e)
  then show ?thesis
    by (intro exI [of _ "trajectory (step s z)"]) (simp add: run_body_def Let_def)
next
  case (Inr s2)
  then obtain tr where "s2 = (step s z)\<lparr>trajectory := tr\<rparr>"
    using record_sample_fields by blast
  then show ?thesis using Inr
    by (intro exI [of _ tr]) (simp add: run_body_def Let_def split: sum.splits)
qed

lemma run_body_any:
  assumes "well_formed s" "finite_regime s"
  shows "\<exists>ps' vs' tr. fst (snd (run_body stp nsteps w df vb z (s, fls)))
                        = s\<lparr>pos := ps', vels := vs', trajectory := tr\<rparr>
          \<and> well_formed (s\<lparr>pos := ps', vels := vs', trajectory := tr\<rparr>)
          \<and> finite_regime (s\<lparr>pos := ps', vels := vs', trajectory := tr\<rparr>)
          \<and> (boundary s = ReflectiveBoundary (box s) \<and> (\<forall>c \<in> set (box s). fst c \<le> snd c)
               \<longrightarrow> in_box (box s) ps')"
proof -
  obtain ps' vs' where st: "step s z = s\<lparr>pos := ps', vels := vs'\<rparr>"
    and wf: "well_formed (s\<lparr>pos := ps', vels := vs'\<rparr>)"
    and fr: "finite_regime (s\<lparr>pos := ps', vels := vs'\<rparr>)"
    and ib: "boundary s = ReflectiveBoundary (box s) \<and> (\<forall>c \<in> set (box s). fst c \<le> snd c)
               \<longrightarrow> in_box (box s) ps'"
    using step_ok [OF assms, of z] by blast
  obtain tr where "fst (snd (run_body stp nsteps w df vb z (s, fls)))
      = s\<lparr>pos := ps', vels := vs', trajectory := tr\<rparr>"
    using run_body_state [of stp nsteps w df vb z s fls] st by auto
  then show ?thesis using wf fr ib by (intro exI [of _ ps'] exI [of _ vs'] exI [of _ tr]) simp
qed

lemma run_loop_in_box:
  assumes "well_formed s" "finite_regime s"
    and "boundary s = ReflectiveBoundary (box s)" "\<forall>c \<in> set (box s). fst c \<le> snd c"
    and "0 < k \<or> in_box (box s) (pos s)"
  shows "tracked (fst (snd (run_loop k stp nsteps w df vb zs (s, fls))))
       \<and> in_box (box s) (pos (fst (snd (run_loop k stp nsteps w df vb zs (s, fls)))))"
  using assms
proof (induction k arbitrary: s fls stp)
  case 0
  then show ?case by (simp add: well_formed_def)
next
  case (Suc k)
  obtain e s' fls' where rb: "run_body stp nsteps w df vb (zs (nat stp)) (s, fls) = (e, s', fls')"
    by (cases "run_body stp nsteps w df vb (zs (nat stp)) (s, fls)") auto
  obtain ps' vs' tr where s': "s' = s\<lparr>pos := ps', vels := vs', trajectory := tr\<rparr>"
    and wf: "well_formed s'" and fr: "finite_regime s'" and ib: "in_box (box s) ps'"
    using run_body_any [OF Suc.prems(1,2), of stp nsteps w df vb "zs (nat stp)" fls] rb Suc.prems(3,4)
    by auto
  show ?case
  proof (cases e)
    case None
    have "tracked (fst (snd (run_loop k (stp + 1) nsteps w df vb zs (s', fls'))))
        \<and> in_box (box s') (pos (fst (snd (run_loop k (stp + 1) nsteps w df vb zs (s', fls')))))"
      using Suc.IH [OF wf fr, of "stp + 1" fls'] Suc.prems(3,4) ib s' by simp
    then show ?thesis using rb None s' by simp
  next
    case (Some err)
    then show ?thesis using rb ib s' wf by (simp add: well_formed_def)
  qed
qed

lemma run_result:
  "run s nsteps output_file df vb zs fls =
     (case run_loop (nat nsteps) 1 nsteps (open_writer output_file) df vb zs
             (s, remove_old (open_writer output_file) fls) of
        (Some e, x) \<Rightarrow> (Some e, x)
      | (None, x) \<Rightarrow> (None, (fst x)\<lparr>trajectory := to_arrays (trajectory (fst x))\<rparr>, snd x))"
  by (simp add: run_def Let_def)

lemma run_pos:
  "pos (fst (snd (run s nsteps output_file df vb zs fls)))
     = pos (fst (snd (run_loop (nat nsteps) 1 nsteps (open_writer output_file) df vb zs
                        (s, remove_old (open_writer output_file) fls))))"
  "tracked (fst (snd (run s nsteps output_file df vb zs fls)))
     = tracked (fst (snd (run_loop (nat nsteps) 1 nsteps (open_writer output_file) df vb zs
                        (s, remove_old (open_writer output_file) fls))))"
  unfolding run_result
  by (cases "run_loop (nat nsteps) 1 nsteps (open_writer output_file) df vb zs
               (s, remove_old (open_writer output_file) fls)";
      auto split: option.splits)+

lemma split_columns_ok:
  "\<forall>i \<in> set cols. i < 3 \<Longrightarrow> \<exists>r. split_columns key a cols processed = Inr r"
  by (induction cols arbitrary: processed) (auto simp: axis_def)

lemma write_frame_ok:
  assumes "d \<le> 3"
  shows "\<exists>fr. write_frame filename stp n bx fin
            [(''radius'', Arr1 r), (''pos'', Arr2 d ps), (''v'', Arr2 d vs)] fls
          = Inr (fls(filename \<mapsto> file_frames fls filename @ [fr])) \<and> frame_timestep fr = stp"
proof -
  have cols: "\<forall>i \<in> set [0..<d]. i < 3" using assms by auto
  obtain p1 where p1: "split_columns ''pos'' ps [0..<d] (dict_set ''radius'' r []) = Inr p1"
    using split_columns_ok [OF cols] by blast
  obtain p2 where p2: "split_columns ''v'' vs [0..<d] p1 = Inr p2"
    using split_columns_ok [OF cols] by blast
  show ?thesis using p1 p2
    by (intro exI [of _ "\<lparr>frame_timestep = stp, frame_natoms = n, frame_box = bx,
                          frame_columns = p2, frame_tracked = fin\<rparr>"])
       (simp add: write_frame_def file_frames_def)
qed

lemma dump_frame_ok:
  assumes "w = None \<or> (df \<noteq> 0 \<and> ndims s \<le> 3)"
  shows "\<exists>fls'. dump_frame w stp df s fls = Inr fls'"
proof (cases w)
  case None
  then show ?thesis by (simp add: dump_frame_def)
next
  case (Some filename)
  then have "df \<noteq> 0" "ndims s \<le> 3" using assms by auto
  then show ?thesis
    using Some write_frame_ok [of "ndims s" filename stp "natoms s" "box s" "tracked s" "radius s"
        "pos s" "vels s" fls]
    by (auto simp: dump_frame_def)
qed

text \<open>A pass of the loop on a trajectory of lists: whatever the arrays hold, one time and
  one temperature are appended, and only the progress report can raise.\<close>

lemma run_body_ok:
  assumes "traj_time (trajectory s) = PyList ts" "traj_temperature (trajectory s) = PyList tps"
    and "w = None \<or> (df \<noteq> 0 \<and> ndims s \<le> 3)"
  shows "\<exists>fls'.
           run_body stp nsteps w df vb z (s, fls)
             = (case print_progress vb stp nsteps of Inl e \<Rightarrow> Some e | Inr _ \<Rightarrow> None,
                (step s z)\<lparr>trajectory := (trajectory s)
                    \<lparr>traj_time := PyList (ts @ [of_int stp * dt s]),
                     traj_temperature := PyList (tps @ [current_temperature (step s z)])\<rparr>\<rparr>, fls')"
proof -
  let ?s2 = "(step s z)\<lparr>trajectory := (trajectory s)
                    \<lparr>traj_time := PyList (ts @ [of_int stp * dt s]),
                     traj_temperature := PyList (tps @ [current_temperature (step s z)])\<rparr>\<rparr>"
  have rs: "record_sample (of_int stp * dt (step s z)) (current_temperature (step s z)) (step s z)
              = Inr ?s2"
    using assms(1,2) by (simp add: record_sample_def)
  have "ndims ?s2 = ndims s" by simp
  then obtain fls' where d: "dump_frame w stp df ?s2 fls = Inr fls'"
    using dump_frame_ok [of w df ?s2 stp fls] assms(3) by auto
  have "run_body stp nsteps w df vb z (s, fls)
          = (case print_progress vb stp nsteps of Inl e \<Rightarrow> Some e | Inr _ \<Rightarrow> None, ?s2, fls')"
    using rs d by (simp add: run_body_def Let_def split: sum.splits)
  then show ?thesis by blast
qed

lemma run_loop_ok:
  assumes "traj_time (trajectory s) = PyList ts" "traj_temperature (trajectory s) = PyList tps"
    and "w = None \<or> (df \<noteq> 0 \<and> ndims s \<le> 3)"
    and "vb \<longrightarrow> nsteps div 10 \<noteq> 0"
  shows "\<exists>s' fls' tps'.
           run_loop k stp nsteps w df vb zs (s, fls) = (None, s', fls')
         \<and> traj_time (trajectory s') = PyList (ts @ map (\<lambda>j. of_int (stp + int j) * dt s) [0..<k])
         \<and> traj_temperature (trajectory s') = PyList (tps @ tps') \<and> length tps' = k
         \<and> traj_kinetic_energy (trajectory s') = traj_kinetic_energy (trajectory s)"
  using assms
proof (induction k arbitrary: s fls stp ts tps)
  case 0
  then show ?case by simp
next
  case (Suc k)
  let ?tp = "current_temperature (step s (zs (nat stp)))"
  let ?s2 = "(step s (zs (nat stp)))\<lparr>trajectory := (trajectory s)
                    \<lparr>traj_time := PyList (ts @ [of_int stp * dt s]),
                     traj_temperature := PyList (tps @ [?tp])\<rparr>\<rparr>"
  obtain fls1 where rb: "run_body stp nsteps w df vb (zs (nat stp)) (s, fls) = (None, ?s2, fls1)"
    using run_body_ok [OF Suc.prems(1-3), of stp nsteps vb "zs (nat stp)" fls] Suc.prems(4)
    by (auto simp: print_progress_def)
  have d2: "w = None \<or> (df \<noteq> 0 \<and> ndims ?s2 \<le> 3)" using Suc.prems(3) by simp
  obtain s' fls' tps' where
    rl: "run_loop k (stp + 1) nsteps w df vb zs (?s2, fls1) = (None, s', fls')"
    and tm: "traj_time (trajectory s')
               = PyList ((ts @ [of_int stp * dt s]) @ map (\<lambda>j. of_int (stp + 1 + int j) * dt ?s2) [0..<k])"
    and tt: "traj_temperature (trajectory s') = PyList ((tps @ [?tp]) @ tps')" "length tps' = k"
    and ke: "traj_kinetic_energy (trajectory s') = traj_kinetic_energy (trajectory ?s2)"
    using Suc.IH [of ?s2 "ts @ [of_int stp * dt s]" "tps @ [?tp]" "stp + 1" fls1, OF _ _ d2 Suc.prems(4)]
    by auto
  have "map (\<lambda>j. of_int (stp + int j) * dt s) [0..<Suc k]
          = (of_int stp * dt s) # map (\<lambda>j. of_int (stp + 1 + int j) * dt s) [0..<k]"
    by (simp add: upt_conv_Cons map_Suc_upt [symmetric] add.assoc add.commute del: upt_Suc)
  then have tm': "traj_time (trajectory s')
               = PyList (ts @ map (\<lambda>j. of_int (stp + int j) * dt s) [0..<Suc k])"
    using tm by simp
  have "run_loop (Suc k) stp nsteps w df vb zs (s, fls) = (None, s', fls')"
    using rb rl by simp
  moreover have "traj_temperature (trajectory s') = PyList (tps @ (?tp # tps'))" "length (?tp # tps') = Suc k"
    using tt by simp_all
  ultimately show ?case using tm' ke by (intro exI [of _ s'] exI [of _ fls'] exI [of _ "?tp # tps'"]) simp
qed

lemma times_list:
  fixes t :: real
  shows "length (map (\<lambda>j. of_int (1 + int j) * t) [0..<n]) = n"
    and "\<forall>k. 1 \<le> k \<and> k \<le> n \<longrightarrow> map (\<lambda>j. of_int (1 + int j) * t) [0..<n] ! (k - 1) = real k * t"
    and "0 < t \<Longrightarrow> sorted_wrt (<) (map (\<lambda>j. of_int (1 + int j) * t) [0..<n])"
    and "\<forall>k. Suc k < n \<longrightarrow>
           map (\<lambda>j. of_int (1 + int j) * t) [0..<n] ! Suc k
             - map (\<lambda>j. of_int (1 + int j) * t) [0..<n] ! k = t"
proof -
  show "length (map (\<lambda>j. of_int (1 + int j) * t) [0..<n]) = n" by simp
  show "\<forall>k. 1 \<le> k \<and> k \<le> n \<longrightarrow> map (\<lambda>j. of_int (1 + int j) * t) [0..<n] ! (k - 1) = real k * t"
  proof (intro allI impI)
    fix k assume k: "1 \<le> k \<and> k \<le> n"
    then obtain j where j: "k = Suc j" by (cases k) auto
    then have "j < n" using k by simp
    then show "map (\<lambda>j. of_int (1 + int j) * t) [0..<n] ! (k - 1) = real k * t"
      using j by simp
  qed
  show "sorted_wrt (<) (map (\<lambda>j. of_int (1 + int j) * t) [0..<n])" if "0 < t"
    using that by (simp add: sorted_wrt_iff_nth_less)
  show "\<forall>k. Suc k < n \<longrightarrow>
           map (\<lambda>j. of_int (1 + int j) * t) [0..<n] ! Suc k
             - map (\<lambda>j. of_int (1 + int j) * t) [0..<n] ! k = t"
    by (simp add: algebra_simps)
qed

lemma write_frame_frames:
  assumes "write_frame filename stp n bx fin flds fls = Inr fls'"
  shows "\<exists>fr. file_frames fls' filename = file_frames fls filename @ [fr] \<and> frame_timestep fr = stp"
  using assms by (auto simp: write_frame_def file_frames_def split: sum.splits)

lemma dump_frame_frames:
  assumes "dump_frame (Some filename) stp df s fls = Inr fls'"
  shows "file_frames fls' filename = file_frames fls filename
       \<or> (df \<noteq> 0 \<and> stp mod df = 0 \<and>
           (\<exists>fr. file_frames fls' filename = file_frames fls filename @ [fr] \<and> frame_timestep fr = stp))"
  using assms write_frame_frames
  by (fastforce simp: dump_frame_def split: if_splits)

lemma run_body_files:
  "snd (snd (run_body stp nsteps w df vb z (s, fls))) = fls
   \<or> (\<exists>s2. dump_frame w stp df s2 fls = Inr (snd (snd (run_body stp nsteps w df vb z (s, fls)))))"
  by (auto simp: run_body_def Let_def split: sum.splits)

lemma run_body_frames:
  assumes "\<forall>f \<in> set (file_frames fls filename).
             lo \<le> frame_timestep f \<and> frame_timestep f < hi \<and> frame_timestep f mod df = 0"
    and "lo \<le> stp" "stp < hi"
  shows "\<forall>f \<in> set (file_frames (snd (snd (run_body stp nsteps (Some filename) df vb z (s, fls)))) filename).
             lo \<le> frame_timestep f \<and> frame_timestep f < hi \<and> frame_timestep f mod df = 0"
proof -
  let ?fls' = "snd (snd (run_body stp nsteps (Some filename) df vb z (s, fls)))"
  consider "?fls' = fls" | s2 where "dump_frame (Some filename) stp df s2 fls = Inr ?fls'"
    using run_body_files [of stp nsteps "Some filename" df vb z s fls] by blast
  then show ?thesis
  proof cases
    case 1
    then show ?thesis using assms(1) by simp
  next
    case 2
    from dump_frame_frames [OF 2] show ?thesis
      using assms by auto
  qed
qed

lemma run_loop_frames:
  assumes "\<forall>f \<in> set (file_frames fls filename).
             lo \<le> frame_timestep f \<and> frame_timestep f < stp + int k \<and> frame_timestep f mod df = 0"
    and "lo \<le> stp"
  shows "\<forall>f \<in> set (file_frames (snd (snd (run_loop k stp nsteps (Some filename) df vb zs (s, fls)))) filename).
             lo \<le> frame_timestep f \<and> frame_timestep f < stp + int k \<and> frame_timestep f mod df = 0"
  using assms
proof (induction k arbitrary: s fls stp)
  case 0
  then show ?case by simp
next
  case (Suc k)
  obtain e s' fls' where rb: "run_body stp nsteps (Some filename) df vb (zs (nat stp)) (s, fls) = (e, s', fls')"
    by (cases "run_body stp nsteps (Some filename) df vb (zs (nat stp)) (s, fls)") auto
  have fr': "\<forall>f \<in> set (file_frames fls' filename).
             lo \<le> frame_timestep f \<and> frame_timestep f < stp + int (Suc k) \<and> frame_timestep f mod df = 0"
    using run_body_frames [OF Suc.prems(1,2), of nsteps vb "zs (nat stp)" s] rb by simp
  show ?case
  proof (cases e)
    case None
    have "\<forall>f \<in> set (file_frames (snd (snd (run_loop k (stp + 1) nsteps (Some filename) df vb zs (s', fls')))) filename).
             lo \<le> frame_timestep f \<and> frame_timestep f < stp + 1 + int k \<and> frame_timestep f mod df = 0"
      using Suc.IH [of fls' "stp + 1" s'] fr' Suc.prems(2) by (simp add: add.assoc)
    then show ?thesis using rb None by (simp add: add.assoc)
  next
    case (Some err)
    then show ?thesis using rb fr' by simp
  qed
qed

lemma run_files:
  "snd (snd (run s nsteps output_file df vb zs fls))
     = snd (snd (run_loop (nat nsteps) 1 nsteps (open_writer output_file) df vb zs
                   (s, remove_old (open_writer output_file) fls)))"
  unfolding run_result
  by (cases "run_loop (nat nsteps) 1 nsteps (open_writer output_file) df vb zs
               (s, remove_old (open_writer output_file) fls)")
     (auto split: option.splits)

section \<open>Concrete simulations\<close>

lemma AVOGADRO_neq0 [simp]: "AVOGADRO \<noteq> 0"
  using AVOGADRO_pos by simp

lemma resting_sim_constructed:
  "LangevinSimulation 1 1 [(lo, hi)] 0 h 1 ''reflective'' 1 zero_draws zero_draws
     = Inr (resting_sim lo hi h)"
  by (simp add: LangevinSimulation_def create_boundary_def boundary_types_def lower_def
      lower_char_def resting_sim_def initial_pos_def initial_vels_def random_array_def zero_draws_def
      mean_axis0_def ncols_def column_def)

lemma resting_sim_force:
  "h \<noteq> 0 \<Longrightarrow> compute_langevin_force [1 / AVOGADRO] [[0]] 0 1 h zero_draws = Inr [[0]]"
  by (simp add: compute_langevin_force_def ncols_def random_array_def zero_draws_def)

lemma resting_sim_step_inverted:
  "step (resting_sim 1 0 1) zero_draws = (resting_sim 1 0 1)\<lparr>pos := [[0]], vels := [[0]]\<rparr>"
  by (simp add: step_def resting_sim_def resting_sim_force euler_integrate_def
      reflective_apply_def reflect_axis_def column_def assign_where_def)

lemma resting_sim_step:
  "h \<noteq> 0 \<Longrightarrow> lo < hi \<Longrightarrow>
   step ((resting_sim lo hi h)\<lparr>trajectory := tr\<rparr>) zero_draws
     = (resting_sim lo hi h)\<lparr>trajectory := tr\<rparr>"
  by (simp add: step_def resting_sim_def resting_sim_force euler_integrate_def
      reflective_apply_def reflect_axis_def column_def assign_where_def)

lemma resting_sim_temperature:
  "compute_temperature [1 / AVOGADRO] [[0]] = Inr 0"
  by (simp add: compute_temperature_def ncols_def mean_axis0_def column_def sum_mass_sq_def)

lemma resting_sim_body:
  assumes "h \<noteq> 0" "lo < hi"
  shows "run_body stp nsteps None df False zero_draws
           ((resting_sim lo hi h)\<lparr>trajectory := \<lparr>traj_time = PyList ts, traj_temperature = PyList tps,
                                                  traj_kinetic_energy = PyList []\<rparr>\<rparr>, fls)
         = (None, (resting_sim lo hi h)\<lparr>trajectory :=
                     \<lparr>traj_time = PyList (ts @ [of_int stp * h]),
                      traj_temperature = PyList (tps @ [Some 0]),
                      traj_kinetic_energy = PyList []\<rparr>\<rparr>, fls)"
  unfolding run_body_def Let_def
  by (simp add: resting_sim_step [OF assms])
     (simp add: resting_sim_def resting_sim_temperature current_temperature_def record_sample_def
        dump_frame_def print_progress_def)

lemma two_particles_constructed:
  "\<exists>s. LangevinSimulation 2 1 [(0, 10)] 0 1 2 ''reflective'' 1 half_draws index_draws = Inr s
       \<and> pos s = [[5], [5]] \<and> vels s = [[- 1 / 2], [1 / 2]]"
  by (simp add: LangevinSimulation_def create_boundary_def boundary_types_def lower_def
      lower_char_def initial_pos_def initial_vels_def random_array_def half_draws_def index_draws_def
      mean_axis0_def ncols_def column_def upt_rec)

section \<open>The times of the trajectory\<close>

text \<open>
  Claim C6, at an input where the code departs from it. \<^verbatim>\<open>run(5)\<close> on a freshly
  constructed simulation takes the default \<^verbatim>\<open>verbose=True\<close>. The first pass of the loop
  appends the time \<open>1 * dt\<close> and one temperature; then \<^verbatim>\<open>step % (nsteps // 10)\<close> raises
  \<^verbatim>\<open>ZeroDivisionError\<close>. No trajectory is returned, and the time sequence is left as a
  list of one entry where the claim has five.
\<close>

theorem run_five_steps_one_sample:
  "LangevinSimulation 1 1 [(0, 10)] 0 1 1 ''reflective'' 1 zero_draws zero_draws
     = Inr (resting_sim 0 10 1)
   \<and> run (resting_sim 0 10 1) 5 None 100 True no_noise Map.empty
       = (Some ZeroDivisionError,
          (resting_sim 0 10 1)\<lparr>trajectory :=
             \<lparr>traj_time = PyList [1], traj_temperature = PyList [Some 0],
              traj_kinetic_energy = PyList []\<rparr>\<rparr>,
          Map.empty)"
proof -
  have s0: "resting_sim 0 10 1 = (resting_sim 0 10 1)\<lparr>trajectory :=
              \<lparr>traj_time = PyList [], traj_temperature = PyList [],
               traj_kinetic_energy = PyList []\<rparr>\<rparr>"
    by (simp add: resting_sim_def)
  have st: "step ((resting_sim 0 10 1)\<lparr>trajectory :=
              \<lparr>traj_time = PyList [], traj_temperature = PyList [],
               traj_kinetic_energy = PyList []\<rparr>\<rparr>) zero_draws
            = (resting_sim 0 10 1)\<lparr>trajectory :=
              \<lparr>traj_time = PyList [], traj_temperature = PyList [],
               traj_kinetic_energy = PyList []\<rparr>\<rparr>"
    by (rule resting_sim_step) simp_all
  have "run_body 1 5 None 100 True zero_draws
          ((resting_sim 0 10 1)\<lparr>trajectory :=
              \<lparr>traj_time = PyList [], traj_temperature = PyList [],
               traj_kinetic_energy = PyList []\<rparr>\<rparr>, Map.empty)
        = (Some ZeroDivisionError,
           (resting_sim 0 10 1)\<lparr>trajectory :=
              \<lparr>traj_time = PyList [1], traj_temperature = PyList [Some 0],
               traj_kinetic_energy = PyList []\<rparr>\<rparr>, Map.empty)"
    unfolding run_body_def Let_def
    by (simp add: st)
       (simp add: resting_sim_def resting_sim_temperature current_temperature_def
          record_sample_def dump_frame_def print_progress_def)
  then have "run_loop (nat 5) 1 5 (open_writer None) 100 True no_noise
          (resting_sim 0 10 1, remove_old (open_writer None) Map.empty)
        = (Some ZeroDivisionError,
           (resting_sim 0 10 1)\<lparr>trajectory :=
              \<lparr>traj_time = PyList [1], traj_temperature = PyList [Some 0],
               traj_kinetic_energy = PyList []\<rparr>\<rparr>, Map.empty)"
    using s0 by (simp add: open_writer_def remove_old_def eval_nat_numeral no_noise_def)
  then show ?thesis
    unfolding run_result by (simp add: resting_sim_constructed)
qed

section \<open>The progress report of run\<close>

text \<open>
  Claim C8, where the code departs from it. For every freshly constructed simulation and
  every \<open>nsteps\<close> from 1 to 9, \<^verbatim>\<open>run(nsteps, verbose=True)\<close> ends in the first pass of the loop
  with \<^verbatim>\<open>ZeroDivisionError\<close>, raised by \<^verbatim>\<open>step % (nsteps // 10)\<close> after the first sample has
  been appended: nothing guards the division.
\<close>

theorem run_verbose_few_steps_raises:
  assumes "LangevinSimulation n M bx T t tau boundary_type rad u z0 = Inr s"
    and "1 \<le> nsteps" and "nsteps < 10"
  shows "fst (run s nsteps None dump_frequency True zs fls) = Some ZeroDivisionError
       \<and> length (elems (traj_time (trajectory (fst (snd (run s nsteps None dump_frequency True zs fls)))))) = 1"
proof -
  note st = LangevinSimulation_state [OF assms(1)]
  have tr: "traj_time (trajectory s) = PyList []" "traj_temperature (trajectory s) = PyList []"
    using st(13) by simp_all
  have pp: "print_progress True 1 nsteps = Inl ZeroDivisionError"
    using assms(2,3) by (simp add: print_progress_def)
  obtain k where k: "nat nsteps = Suc k" using assms(2) by (cases "nat nsteps") auto
  let ?s2 = "(step s (zs (nat 1)))\<lparr>trajectory := (trajectory s)
                    \<lparr>traj_time := PyList ([] @ [of_int 1 * dt s]),
                     traj_temperature := PyList ([] @ [current_temperature (step s (zs (nat 1)))])\<rparr>\<rparr>"
  obtain fls' where
    rb: "run_body 1 nsteps None dump_frequency True (zs (nat 1)) (s, fls)
           = (Some ZeroDivisionError, ?s2, fls')"
    using run_body_ok [OF tr, of None dump_frequency 1 nsteps True "zs (nat 1)" fls] pp
    by auto
  have "run_loop (nat nsteps) 1 nsteps (open_writer None) dump_frequency True zs
          (s, remove_old (open_writer None) fls)
        = (Some ZeroDivisionError, ?s2, fls')"
    using rb by (simp add: k open_writer_def remove_old_def)
  then show ?thesis
    unfolding run_result by simp
qed

text \<open>
  \<^verbatim>\<open>run(5)\<close> with the default \<open>verbose = True\<close>.
\<close>

theorem run_verbose_few_steps_raises_witness:
  "\<exists>s. LangevinSimulation 2 1 [(0, 10)] 0 1 2 ''reflective'' 1 half_draws index_draws = Inr s
       \<and> fst (run s 5 None 100 True no_noise Map.empty) = Some ZeroDivisionError
       \<and> length (elems (traj_time (trajectory (fst (snd
            (run s 5 None 100 True no_noise Map.empty)))))) = 1"
proof -
  obtain s where s: "LangevinSimulation 2 1 [(0, 10)] 0 1 2 ''reflective'' 1 half_draws index_draws = Inr s"
    using two_particles_constructed by blast
  from run_verbose_few_steps_raises [OF s, of 5 100 no_noise Map.empty]
  show ?thesis using s by auto
qed

section \<open>The dump file\<close>

text \<open>
  Claim C10. When \<^verbatim>\<open>run\<close> is called with a non-empty output file name at which a file
  exists, the outcome of the run (the exception if any, the state and every file) is the
  outcome of the same run started with no file at that path: the old contents are
  removed before the loop, whatever they are and however the run ends. Every frame the
  file holds afterwards was written by a pass of this run: its timestep is a step number
  from 1 to \<open>nsteps\<close> that the dump frequency divides.
\<close>

theorem run_replaces_existing_file:
  assumes "filename \<noteq> []"
  shows "run s nsteps (Some filename) dump_frequency verbose zs (fls(filename \<mapsto> old))
           = run s nsteps (Some filename) dump_frequency verbose zs (fls(filename := None))
       \<and> (\<forall>f \<in> set (file_frames (snd (snd
                (run s nsteps (Some filename) dump_frequency verbose zs (fls(filename \<mapsto> old))))) filename).
             1 \<le> frame_timestep f \<and> frame_timestep f \<le> nsteps
           \<and> frame_timestep f mod dump_frequency = 0)"
proof -
  have w: "open_writer (Some filename) = Some filename"
    using assms by (simp add: open_writer_def)
  have rm: "remove_old (Some filename) (fls(filename \<mapsto> old)) = fls(filename := None)"
    "remove_old (Some filename) (fls(filename := None)) = fls(filename := None)"
    by (simp_all add: remove_old_def)
  have eq: "run s nsteps (Some filename) dump_frequency verbose zs (fls(filename \<mapsto> old))
           = run s nsteps (Some filename) dump_frequency verbose zs (fls(filename := None))"
    unfolding run_result w rm ..
  have empty: "\<forall>f \<in> set (file_frames (fls(filename := None)) filename).
      1 \<le> frame_timestep f \<and> frame_timestep f < 1 + int (nat nsteps) \<and> frame_timestep f mod dump_frequency = 0"
    by (simp add: file_frames_def)
  have "\<forall>f \<in> set (file_frames (snd (snd
                (run s nsteps (Some filename) dump_frequency verbose zs (fls(filename \<mapsto> old))))) filename).
      1 \<le> frame_timestep f \<and> frame_timestep f < 1 + int (nat nsteps) \<and> frame_timestep f mod dump_frequency = 0"
    unfolding run_files w rm
    by (rule run_loop_frames [OF empty]) simp
  then have "\<forall>f \<in> set (file_frames (snd (snd
                (run s nsteps (Some filename) dump_frequency verbose zs (fls(filename \<mapsto> old))))) filename).
             1 \<le> frame_timestep f \<and> frame_timestep f \<le> nsteps
           \<and> frame_timestep f mod dump_frequency = 0"
    by (auto split: if_splits)
  then show ?thesis using eq by blast
qed

text \<open>
  A file holding one frame of an earlier run with the timestep \<open>99\<close>; two steps are
  dumped at every step.
\<close>

theorem run_replaces_existing_file_witness:
  "''out.dump'' \<noteq> []
   \<and> run (resting_sim 0 10 1) 2 (Some ''out.dump'') 1 False no_noise
        [''out.dump'' \<mapsto> [\<lparr>frame_timestep = 99, frame_natoms = 1, frame_box = [(0, 10)],
                             frame_columns = [], frame_tracked = True\<rparr>]]
      = run (resting_sim 0 10 1) 2 (Some ''out.dump'') 1 False no_noise Map.empty
   \<and> list_all (\<lambda>f. 1 \<le> frame_timestep f \<and> frame_timestep f \<le> 2)
        (file_frames (snd (snd
           (run (resting_sim 0 10 1) 2 (Some ''out.dump'') 1 False no_noise
              [''out.dump'' \<mapsto> [\<lparr>frame_timestep = 99, frame_natoms = 1, frame_box = [(0, 10)],
                             frame_columns = [], frame_tracked = True\<rparr>]]))) ''out.dump'')"
  using run_replaces_existing_file [of "''out.dump''" "resting_sim 0 10 1" 2 1 False
      no_noise Map.empty
      "[\<lparr>frame_timestep = 99, frame_natoms = 1, frame_box = [(0, 10)], frame_columns = [],
         frame_tracked = True\<rparr>]"]
  by (simp add: list_all_iff)

section \<open>Construction and validation\<close>

text \<open>
  Claim C7, at an input where the code departs from it. The checks on \<open>natoms\<close>,
  \<open>temperature\<close> and \<open>dt\<close> exist in \<^verbatim>\<open>validate_config\<close>, which nothing calls:
  \<^verbatim>\<open>LangevinSimulation.__init__\<close> checks none of them. For the timestep \<open>0\<close>
  \<^verbatim>\<open>validate_config\<close> raises \<^verbatim>\<open>ValueError\<close>, and the constructor, given the same values,
  builds the state with its particle.
\<close>

theorem constructor_skips_validate_config:
  "validate_config
     [''natoms'' \<mapsto> YNum 1, ''mass'' \<mapsto> YNum 1, ''temperature'' \<mapsto> YNum 0,
      ''dt'' \<mapsto> YNum 0, ''relaxation_time'' \<mapsto> YNum 1, ''nsteps'' \<mapsto> YNum 5,
      ''box'' \<mapsto> YSeq [YSeq [YNum 0, YNum 10]]]
     = Inl (ValueError ''dt must be positive'')
   \<and> LangevinSimulation 1 1 [(0, 10)] 0 0 1 ''reflective'' 1 zero_draws zero_draws
       = Inr (resting_sim 0 10 0)
   \<and> dt (resting_sim 0 10 0) = 0
   \<and> pos (resting_sim 0 10 0) = [[0]]"
  by (simp add: validate_config_def required_keys_def le_zero_def lt_zero_def
      resting_sim_constructed)
     (simp add: resting_sim_def)

end
